theory Spec2Isabelle
  imports Complex_Main "HOL-Library.Monad_Syntax"
begin

section \<open>Python values, dictionaries and exceptions\<close>

text \<open>
  The two modules pass their configuration around as Python dictionaries
  (\<^verbatim>\<open>params = locals()\<close>, \<^verbatim>\<open>model_dict[model_name](**params)\<close>).  A dictionary is a
  partial map from key strings to dynamically typed values.
\<close>

datatype pyval =
    PNone
  | PBool bool
  | PInt int
  | PFloat real
  | PStr string
  | PList "pyval list"

type_synonym pydict = "string \<rightharpoonup> pyval"

text \<open>
  Exceptions are values.  The two modules raise one exception themselves, the \<^verbatim>\<open>ValueError\<close>
  of \<^verbatim>\<open>train.py\<close>, line 166; their own expressions can raise Python's \<^verbatim>\<open>KeyError\<close> (a
  dictionary lookup), \<^verbatim>\<open>IndexError\<close> (a tuple index), \<^verbatim>\<open>TypeError\<close> (a call that does not fit a
  signature, \<^verbatim>\<open>len\<close> of something without a length) and \<^verbatim>\<open>UnboundLocalError\<close>.  Everything
  else is raised inside code that is not in the two files (Keras, numpy, the other modules
  of the package) and propagates: \<open>LibraryError\<close>, with a description of the exception.
\<close>

datatype error =
    ValueError string
  | TypeError string
  | KeyError string
  | IndexError string
  | UnboundLocalError string
  | LibraryError string

type_synonym exn = string

definition foreign :: "exn + 'a \<Rightarrow> error + 'a" where
  "foreign r = (case r of Inl x \<Rightarrow> Inl (LibraryError x) | Inr v \<Rightarrow> Inr v)"

definition bindE :: "error + 'a \<Rightarrow> ('a \<Rightarrow> error + 'b) \<Rightarrow> error + 'b" where
  "bindE m f = (case m of Inl e \<Rightarrow> Inl e | Inr x \<Rightarrow> f x)"

section \<open>models.py: layers, symbolic tensors, models\<close>

text \<open>
  A shape is the tuple of dimensions without the batch axis, as in
  \<^verbatim>\<open>kl.Input(shape=(nb_hist, nb_freq))\<close>.  Index \<open>i\<close> of Keras' \<^verbatim>\<open>tensor.shape\<close> (which counts the
  batch axis) is index \<open>i - 1\<close> here.
\<close>

type_synonym shape = "int list"

text \<open>
  The layer constructors the two builders call, with the arguments the source passes.
  \<open>TCN\<close> carries, in this order: \<^verbatim>\<open>nb_filters, kernel_size, nb_stacks, dilations, activation,
  use_skip_connections, padding, dropout_rate, return_sequences, use_separable, name\<close>.
  \<open>Spectrogram\<close> carries \<^verbatim>\<open>n_dft\<close> and \<^verbatim>\<open>n_hop\<close>; its other arguments are the constants of
  lines 77-78.  \<open>MaxPooling1D\<close> carries \<^verbatim>\<open>pool_size\<close> and \<^verbatim>\<open>strides\<close>.
\<close>

datatype layer =
    Input shape
  | Spectrogram int int
  | Reshape shape
  | TCN int int int "int list" string bool string real bool pyval "string option"
  | MaxPooling1D int int
  | Bidirectional_LSTM int
  | Dense int
  | Activation string
  | UpSampling1D int

text \<open>
  A symbolic tensor: its shape, and the layers that produced it, each with the shape it
  returned (oldest first).
\<close>

record tensor =
  shape :: shape
  history :: "(layer \<times> shape) list"

text \<open>
  The classes \<^verbatim>\<open>das.tcn.TCN\<close> and \<^verbatim>\<open>das.kapre.time_frequency.Spectrogram\<close> are modules of the
  package whose source is not among the files.  The builders are parametric in what these
  two layers do to a shape.
\<close>

record backend =
  TCN_shape :: "layer \<Rightarrow> shape \<Rightarrow> exn + shape"
  Spectrogram_shape :: "layer \<Rightarrow> shape \<Rightarrow> exn + shape"

text \<open>
  Output shapes of the Keras layers (\<^verbatim>\<open>tensorflow.keras.layers\<close>), as Keras documents them:
  \<^item> \<^verbatim>\<open>Dense(units)\<close> acts on the last axis and replaces its size by \<^verbatim>\<open>units\<close>;
  \<^item> \<^verbatim>\<open>Activation\<close> keeps the shape;
  \<^item> \<^verbatim>\<open>UpSampling1D(size)\<close> wants \<^verbatim>\<open>(batch, steps, features)\<close> and repeats every step
    \<^verbatim>\<open>size\<close> times;
  \<^item> \<^verbatim>\<open>MaxPooling1D(pool_size, strides)\<close> with the default \<^verbatim>\<open>padding='valid'\<close> returns
    \<^verbatim>\<open>(steps - pool_size) // strides + 1\<close> steps and fails on fewer than \<^verbatim>\<open>pool_size\<close> steps;
  \<^item> \<^verbatim>\<open>Bidirectional(LSTM(units, return_sequences=True))\<close> concatenates both directions;
  \<^item> \<^verbatim>\<open>Reshape(target)\<close> wants as many elements as it gets.
\<close>

definition output_shape :: "backend \<Rightarrow> layer \<Rightarrow> shape \<Rightarrow> exn + shape" where
  "output_shape B l s =
     (case l of
        Input s' \<Rightarrow> Inr s'
      | Spectrogram n_dft n_hop \<Rightarrow> Spectrogram_shape B l s
      | TCN nf ks ns dil act skip pad dr rs sep nm \<Rightarrow> TCN_shape B l s
      | Reshape target \<Rightarrow>
          (if prod_list s = prod_list target then Inr target
           else Inl ''total size of new array must be unchanged'')
      | MaxPooling1D pool_size strides \<Rightarrow>
          (case s of
             [steps, features] \<Rightarrow>
               (if strides \<le> 0 \<or> steps < pool_size
                then Inl ''Negative dimension size''
                else Inr [(steps - pool_size) div strides + 1, features])
           | _ \<Rightarrow> Inl ''expected ndim=3'')
      | Bidirectional_LSTM units \<Rightarrow>
          (case s of
             [steps, features] \<Rightarrow> Inr [steps, 2 * units]
           | _ \<Rightarrow> Inl ''expected ndim=3'')
      | Dense units \<Rightarrow>
          (case s of
             [] \<Rightarrow> Inl ''expected min_ndim=2''
           | _ \<Rightarrow> Inr (butlast s @ [units]))
      | Activation a \<Rightarrow> Inr s
      | UpSampling1D factor \<Rightarrow>
          (case s of
             [steps, features] \<Rightarrow> Inr [steps * factor, features]
           | _ \<Rightarrow> Inl ''expected ndim=3''))"

text \<open>\<^verbatim>\<open>layer(tensor)\<close>: calling a layer on a tensor.\<close>

definition call :: "backend \<Rightarrow> layer \<Rightarrow> tensor \<Rightarrow> error + tensor" where
  "call B l t =
     bindE (foreign (output_shape B l (shape t)))
       (\<lambda>s. Inr \<lparr>shape = s, history = history t @ [(l, s)]\<rparr>)"

definition Input_tensor :: "shape \<Rightarrow> tensor" where
  "Input_tensor s = \<lparr>shape = s, history = [(Input s, s)]\<rparr>"

text \<open>
  Modelled from the spec: the layer classes \<^verbatim>\<open>das.tcn.TCN\<close> and
  \<^verbatim>\<open>das.kapre.time_frequency.Spectrogram\<close>, whose source is missing.  The spec's words are
  that "optional frontend stages increase/decrease sequence length by the declared
  downsampling factor" and that a TCN is "a causal/dilated convolutional architecture for
  sequence modeling"; the docstring of \<^verbatim>\<open>tcn_stft\<close> adds that the STFT layer has "a hop size of
  2**nb_pre_conv" and that the "number of filters is pre_nb_dft // 2 + 1".  So:
  \<^item> the TCN keeps the number of steps and returns \<^verbatim>\<open>nb_filters\<close> features per step, or, with
    \<^verbatim>\<open>return_sequences=False\<close>, the features of the last step only; it knows the paddings
    \<^verbatim>\<open>'causal'\<close> and \<^verbatim>\<open>'same'\<close>;
  \<^item> the spectrogram takes \<^verbatim>\<open>(steps, channels)\<close>, wants at least \<^verbatim>\<open>n_dft\<close> steps, and returns one
    frame per hop (the last one padded), \<^verbatim>\<open>n_dft // 2 + 1\<close> frequencies and the channels, in
    the order \<^verbatim>\<open>(frames, frequencies, channels)\<close> that the \<^verbatim>\<open>Reshape\<close> of line 79 relies on.
\<close>

definition spec_TCN_shape :: "layer \<Rightarrow> shape \<Rightarrow> exn + shape" where
  "spec_TCN_shape l s =
     (case l of
        TCN nf ks ns dil act skip pad dr rs sep nm \<Rightarrow>
          (if pad \<noteq> ''causal'' \<and> pad \<noteq> ''same''
           then Inl ''Only causal or same padding are compatible for this layer.''
           else (case s of
                   [steps, features] \<Rightarrow> Inr (if rs then [steps, nf] else [nf])
                 | _ \<Rightarrow> Inl ''expected ndim=3''))
      | _ \<Rightarrow> Inl ''not a TCN layer'')"

definition spec_Spectrogram_shape :: "layer \<Rightarrow> shape \<Rightarrow> exn + shape" where
  "spec_Spectrogram_shape l s =
     (case l of
        Spectrogram n_dft n_hop \<Rightarrow>
          (case s of
             [steps, channels] \<Rightarrow>
               (if n_hop \<le> 0 \<or> steps < n_dft
                then Inl ''The input is too short''
                else Inr [(steps + n_hop - 1) div n_hop, n_dft div 2 + 1, channels])
           | _ \<Rightarrow> Inl ''expected ndim=3'')
      | _ \<Rightarrow> Inl ''not a Spectrogram layer'')"

text \<open>The layers that change the number of steps.\<close>

fun resamples :: "layer \<Rightarrow> bool" where
  "resamples (Spectrogram n_dft n_hop) = True"
| "resamples (MaxPooling1D pool_size strides) = True"
| "resamples (UpSampling1D factor) = True"
| "resamples _ = False"

fun upsamples :: "layer \<Rightarrow> bool" where
  "upsamples (UpSampling1D factor) = True"
| "upsamples _ = False"

definition spec_backend :: backend where
  "spec_backend = \<lparr>TCN_shape = spec_TCN_shape, Spectrogram_shape = spec_Spectrogram_shape\<rparr>"

text \<open>
  \<^verbatim>\<open>keras.optimizers.Adam(lr=learning_rate, amsgrad=True, clipnorm=1.)\<close> and a compiled
  \<^verbatim>\<open>keras.models.Model\<close>.  The weights of a model are named by where they come from: a
  freshly built model has its initial weights, and training replaces them epoch by epoch.
\<close>

record optimizer =
  lr :: real
  amsgrad :: bool
  clipnorm :: real

datatype weights = Initial | After_epoch nat

record model =
  m_inputs :: tensor
  m_outputs :: tensor
  m_name :: string
  m_optimizer :: optimizer
  m_loss :: string
  m_sample_weight_mode :: "string option"
  m_weights :: weights

definition Adam :: "real \<Rightarrow> bool \<Rightarrow> real \<Rightarrow> optimizer" where
  "Adam l a c = \<lparr>lr = l, amsgrad = a, clipnorm = c\<rparr>"

text \<open>\<^verbatim>\<open>keras.models.Model(inputs, outputs, name=...)\<close> followed by \<^verbatim>\<open>model.compile(...)\<close>.\<close>

definition Model :: "tensor \<Rightarrow> tensor \<Rightarrow> string \<Rightarrow> model" where
  "Model i out nm =
     \<lparr>m_inputs = i, m_outputs = out, m_name = nm, m_optimizer = Adam 0.001 False 0,
      m_loss = [], m_sample_weight_mode = None, m_weights = Initial\<rparr>"

definition compile :: "model \<Rightarrow> optimizer \<Rightarrow> string \<Rightarrow> string option \<Rightarrow> model" where
  "compile m optim l swm =
     m\<lparr>m_optimizer := optim, m_loss := l, m_sample_weight_mode := swm\<rparr>"

subsection \<open>The builders\<close>

text \<open>\<^verbatim>\<open>if dilations is None: dilations = [1, 2, 4, 8, 16]\<close> (lines 68-69 and 142-143).\<close>

definition default_dilations :: "int list option \<Rightarrow> int list" where
  "default_dilations dilations = (case dilations of None \<Rightarrow> [1, 2, 4, 8, 16] | Some d \<Rightarrow> d)"

text \<open>
  \<^verbatim>\<open>tcn_stft\<close> (lines 25-100), on its bound parameters in the order of the signature.  Every
  layer call can raise, and the first exception leaves the builder.
\<close>

definition tcn_stft ::
  "backend \<Rightarrow> int \<Rightarrow> int \<Rightarrow> int \<Rightarrow> int \<Rightarrow> int \<Rightarrow> int \<Rightarrow> string \<Rightarrow> int list option \<Rightarrow> string \<Rightarrow>
   bool \<Rightarrow> bool \<Rightarrow> real \<Rightarrow> string \<Rightarrow> string option \<Rightarrow> int \<Rightarrow> int \<Rightarrow> int \<Rightarrow> real \<Rightarrow> bool \<Rightarrow> pyval \<Rightarrow>
   error + model" where
  "tcn_stft B nb_freq nb_classes nb_hist nb_filters kernel_size nb_conv loss dilations
     activation use_skip_connections return_sequences dropout_rate padding
     sample_weight_mode nb_pre_conv pre_nb_dft nb_lstm_units learning_rate upsample
     use_separable =
   (let dilations = default_dilations dilations;
        input_layer = Input_tensor [nb_hist, nb_freq];
        out = input_layer
    in
    bindE (if nb_pre_conv > 0
           then bindE (call B (Spectrogram pre_nb_dft (2 ^ nat nb_pre_conv)) out)
                  (\<lambda>out. case shape out of
                            d1 # d2 # d3 # _ \<Rightarrow> call B (Reshape [d1, d2 * d3]) out
                          | _ \<Rightarrow> Inl (IndexError ''tuple index out of range''))
           else Inr out)
    (\<lambda>out.
    bindE (call B (TCN nb_filters kernel_size nb_conv dilations activation
                     use_skip_connections padding dropout_rate return_sequences
                     use_separable None) out)
    (\<lambda>x.
    bindE (if nb_lstm_units > 0 then call B (Bidirectional_LSTM nb_lstm_units) x else Inr x)
    (\<lambda>x.
    bindE (call B (Dense nb_classes) x)
    (\<lambda>x.
    bindE (call B (Activation ''softmax'') x)
    (\<lambda>x.
    bindE (if nb_pre_conv > 0 \<and> upsample
           then call B (UpSampling1D (2 ^ nat nb_pre_conv)) x else Inr x)
    (\<lambda>x.
    let output_layer = x;
        model = Model input_layer output_layer ''TCN''
    in Inr (compile model (Adam learning_rate True 1) loss sample_weight_mode))))))))"

text \<open>\<^verbatim>\<open>tcn_tcn\<close> (lines 104-167).\<close>

definition tcn_tcn ::
  "backend \<Rightarrow> int \<Rightarrow> int \<Rightarrow> int \<Rightarrow> int \<Rightarrow> int \<Rightarrow> int \<Rightarrow> string \<Rightarrow> int list option \<Rightarrow> string \<Rightarrow>
   bool \<Rightarrow> bool \<Rightarrow> real \<Rightarrow> string \<Rightarrow> string option \<Rightarrow> int \<Rightarrow> real \<Rightarrow> bool \<Rightarrow> pyval \<Rightarrow>
   error + model" where
  "tcn_tcn B nb_freq nb_classes nb_hist nb_filters kernel_size nb_conv loss dilations
     activation use_skip_connections return_sequences dropout_rate padding
     sample_weight_mode nb_pre_conv learning_rate upsample use_separable =
   (let dilations = default_dilations dilations;
        input_layer = Input_tensor [nb_hist, nb_freq];
        out = input_layer
    in
    bindE (if nb_pre_conv > 0
           then bindE (call B (TCN nb_filters kernel_size nb_pre_conv dilations activation
                                 use_skip_connections padding dropout_rate return_sequences
                                 use_separable (Some ''frontend'')) out)
                  (\<lambda>out. call B (MaxPooling1D (2 ^ nat nb_pre_conv) (2 ^ nat nb_pre_conv)) out)
           else Inr out)
    (\<lambda>out.
    bindE (call B (TCN nb_filters kernel_size nb_conv dilations activation
                     use_skip_connections padding dropout_rate return_sequences
                     use_separable None) out)
    (\<lambda>x.
    bindE (call B (Dense nb_classes) x)
    (\<lambda>x.
    bindE (call B (Activation ''softmax'') x)
    (\<lambda>x.
    bindE (if nb_pre_conv > 0 \<and> upsample
           then call B (UpSampling1D (2 ^ nat nb_pre_conv)) x else Inr x)
    (\<lambda>x.
    let output_layer = x;
        model = Model input_layer output_layer ''TCN''
    in Inr (compile model (Adam learning_rate True 1) loss sample_weight_mode)))))))"

subsection \<open>Calling a builder with \<^verbatim>\<open>*args\<close> and \<^verbatim>\<open>**kwargs\<close>\<close>

text \<open>
  A signature lists the named parameters in order, each with its default if it has one.
  Binding follows Python: positional arguments fill the parameters from the left, a
  parameter given twice or a required one not given is a \<^verbatim>\<open>TypeError\<close>, and so is a
  positional argument too many (the builders have no \<^verbatim>\<open>*args\<close>).  Both builders end in
  \<^verbatim>\<open>**kwignored\<close>, which takes every keyword that names no parameter; the body never reads it.
\<close>

type_synonym signature = "(string \<times> pyval option) list"

fun bind_params :: "signature \<Rightarrow> pyval list \<Rightarrow> pydict \<Rightarrow> error + pydict" where
  "bind_params [] [] kw = Inr Map.empty"
| "bind_params [] (v # vs) kw = Inl (TypeError ''too many positional arguments'')"
| "bind_params ((n, d) # sig) (v # vs) kw =
     (if kw n \<noteq> None then Inl (TypeError ''got multiple values for argument'')
      else bindE (bind_params sig vs kw) (\<lambda>b. Inr (b(n \<mapsto> v))))"
| "bind_params ((n, d) # sig) [] kw =
     (case kw n of
        Some v \<Rightarrow> bindE (bind_params sig [] kw) (\<lambda>b. Inr (b(n \<mapsto> v)))
      | None \<Rightarrow>
          (case d of
             Some v \<Rightarrow> bindE (bind_params sig [] kw) (\<lambda>b. Inr (b(n \<mapsto> v)))
           | None \<Rightarrow> Inl (TypeError ''missing required argument'')))"

definition tcn_stft_signature :: signature where
  "tcn_stft_signature =
     [(''nb_freq'', None), (''nb_classes'', None), (''nb_hist'', Some (PInt 1)),
      (''nb_filters'', Some (PInt 16)), (''kernel_size'', Some (PInt 3)),
      (''nb_conv'', Some (PInt 1)), (''loss'', Some (PStr ''categorical_crossentropy'')),
      (''dilations'', Some PNone), (''activation'', Some (PStr ''norm_relu'')),
      (''use_skip_connections'', Some (PBool True)), (''return_sequences'', Some (PBool True)),
      (''dropout_rate'', Some (PFloat 0)), (''padding'', Some (PStr ''same'')),
      (''sample_weight_mode'', Some PNone), (''nb_pre_conv'', Some (PInt 0)),
      (''pre_nb_dft'', Some (PInt 64)), (''nb_lstm_units'', Some (PInt 0)),
      (''learning_rate'', Some (PFloat 0.0005)), (''upsample'', Some (PBool True)),
      (''use_separable'', Some (PBool False))]"

definition tcn_tcn_signature :: signature where
  "tcn_tcn_signature =
     [(''nb_freq'', None), (''nb_classes'', None), (''nb_hist'', Some (PInt 1)),
      (''nb_filters'', Some (PInt 16)), (''kernel_size'', Some (PInt 3)),
      (''nb_conv'', Some (PInt 1)), (''loss'', Some (PStr ''categorical_crossentropy'')),
      (''dilations'', Some PNone), (''activation'', Some (PStr ''norm_relu'')),
      (''use_skip_connections'', Some (PBool True)), (''return_sequences'', Some (PBool True)),
      (''dropout_rate'', Some (PFloat 0)), (''padding'', Some (PStr ''same'')),
      (''sample_weight_mode'', Some PNone), (''nb_pre_conv'', Some (PInt 0)),
      (''learning_rate'', Some (PFloat 0.0005)), (''upsample'', Some (PBool True)),
      (''use_separable'', Some (PBool False))]"

text \<open>
  The bodies are typed by the annotations of the signatures.  A bound value is read at its
  annotated type: a \<^verbatim>\<open>bool\<close> is an \<^verbatim>\<open>int\<close> and an \<^verbatim>\<open>int\<close> a \<^verbatim>\<open>float\<close>, as in Python, and a value
  of another type is rejected with a \<^verbatim>\<open>TypeError\<close> (in Python it would travel on into the
  layer library).  \<^verbatim>\<open>use_separable\<close> is handed to the TCN layer as it is.
\<close>

fun int_of :: "pyval \<Rightarrow> int option" where
  "int_of (PInt n) = Some n"
| "int_of (PBool b) = Some (if b then 1 else 0)"
| "int_of _ = None"

fun float_of :: "pyval \<Rightarrow> real option" where
  "float_of (PFloat r) = Some r"
| "float_of (PInt n) = Some (of_int n)"
| "float_of (PBool b) = Some (if b then 1 else 0)"
| "float_of _ = None"

fun bool_of :: "pyval \<Rightarrow> bool option" where
  "bool_of (PBool b) = Some b"
| "bool_of _ = None"

fun str_of :: "pyval \<Rightarrow> string option" where
  "str_of (PStr s) = Some s"
| "str_of _ = None"

fun optional_str_of :: "pyval \<Rightarrow> string option option" where
  "optional_str_of PNone = Some None"
| "optional_str_of (PStr s) = Some (Some s)"
| "optional_str_of _ = None"

fun ints_of :: "pyval list \<Rightarrow> int list option" where
  "ints_of [] = Some []"
| "ints_of (v # vs) =
     (case int_of v of
        None \<Rightarrow> None
      | Some n \<Rightarrow> (case ints_of vs of None \<Rightarrow> None | Some ns \<Rightarrow> Some (n # ns)))"

fun optional_ints_of :: "pyval \<Rightarrow> int list option option" where
  "optional_ints_of PNone = Some None"
| "optional_ints_of (PList vs) = map_option Some (ints_of vs)"
| "optional_ints_of _ = None"

definition arg :: "pydict \<Rightarrow> string \<Rightarrow> (pyval \<Rightarrow> 'a option) \<Rightarrow> 'a option" where
  "arg b n conv = Option.bind (b n) conv"

text \<open>\<^verbatim>\<open>tcn_stft(*args, **kwargs)\<close> and \<^verbatim>\<open>tcn_tcn(*args, **kwargs)\<close>.\<close>

definition call_tcn_stft :: "backend \<Rightarrow> pyval list \<Rightarrow> pydict \<Rightarrow> error + model" where
  "call_tcn_stft B args kwargs =
     bindE (bind_params tcn_stft_signature args kwargs)
       (\<lambda>b. case do {
                nb_freq \<leftarrow> arg b ''nb_freq'' int_of;
                nb_classes \<leftarrow> arg b ''nb_classes'' int_of;
                nb_hist \<leftarrow> arg b ''nb_hist'' int_of;
                nb_filters \<leftarrow> arg b ''nb_filters'' int_of;
                kernel_size \<leftarrow> arg b ''kernel_size'' int_of;
                nb_conv \<leftarrow> arg b ''nb_conv'' int_of;
                loss \<leftarrow> arg b ''loss'' str_of;
                dilations \<leftarrow> arg b ''dilations'' optional_ints_of;
                activation \<leftarrow> arg b ''activation'' str_of;
                use_skip_connections \<leftarrow> arg b ''use_skip_connections'' bool_of;
                return_sequences \<leftarrow> arg b ''return_sequences'' bool_of;
                dropout_rate \<leftarrow> arg b ''dropout_rate'' float_of;
                padding \<leftarrow> arg b ''padding'' str_of;
                sample_weight_mode \<leftarrow> arg b ''sample_weight_mode'' optional_str_of;
                nb_pre_conv \<leftarrow> arg b ''nb_pre_conv'' int_of;
                pre_nb_dft \<leftarrow> arg b ''pre_nb_dft'' int_of;
                nb_lstm_units \<leftarrow> arg b ''nb_lstm_units'' int_of;
                learning_rate \<leftarrow> arg b ''learning_rate'' float_of;
                upsample \<leftarrow> arg b ''upsample'' bool_of;
                use_separable \<leftarrow> b ''use_separable'';
                Some (tcn_stft B nb_freq nb_classes nb_hist nb_filters kernel_size nb_conv
                        loss dilations activation use_skip_connections return_sequences
                        dropout_rate padding sample_weight_mode nb_pre_conv pre_nb_dft
                        nb_lstm_units learning_rate upsample use_separable)
              } of
               None \<Rightarrow> Inl (TypeError ''argument of the wrong type'')
             | Some r \<Rightarrow> r)"

definition call_tcn_tcn :: "backend \<Rightarrow> pyval list \<Rightarrow> pydict \<Rightarrow> error + model" where
  "call_tcn_tcn B args kwargs =
     bindE (bind_params tcn_tcn_signature args kwargs)
       (\<lambda>b. case do {
                nb_freq \<leftarrow> arg b ''nb_freq'' int_of;
                nb_classes \<leftarrow> arg b ''nb_classes'' int_of;
                nb_hist \<leftarrow> arg b ''nb_hist'' int_of;
                nb_filters \<leftarrow> arg b ''nb_filters'' int_of;
                kernel_size \<leftarrow> arg b ''kernel_size'' int_of;
                nb_conv \<leftarrow> arg b ''nb_conv'' int_of;
                loss \<leftarrow> arg b ''loss'' str_of;
                dilations \<leftarrow> arg b ''dilations'' optional_ints_of;
                activation \<leftarrow> arg b ''activation'' str_of;
                use_skip_connections \<leftarrow> arg b ''use_skip_connections'' bool_of;
                return_sequences \<leftarrow> arg b ''return_sequences'' bool_of;
                dropout_rate \<leftarrow> arg b ''dropout_rate'' float_of;
                padding \<leftarrow> arg b ''padding'' str_of;
                sample_weight_mode \<leftarrow> arg b ''sample_weight_mode'' optional_str_of;
                nb_pre_conv \<leftarrow> arg b ''nb_pre_conv'' int_of;
                learning_rate \<leftarrow> arg b ''learning_rate'' float_of;
                upsample \<leftarrow> arg b ''upsample'' bool_of;
                use_separable \<leftarrow> b ''use_separable'';
                Some (tcn_tcn B nb_freq nb_classes nb_hist nb_filters kernel_size nb_conv
                        loss dilations activation use_skip_connections return_sequences
                        dropout_rate padding sample_weight_mode nb_pre_conv
                        learning_rate upsample use_separable)
              } of
               None \<Rightarrow> Inl (TypeError ''argument of the wrong type'')
             | Some r \<Rightarrow> r)"

text \<open>\<^verbatim>\<open>def tcn(*args, **kwargs): return tcn_stft(*args, **kwargs)\<close> (lines 19-21).\<close>

definition tcn :: "backend \<Rightarrow> pyval list \<Rightarrow> pydict \<Rightarrow> error + model" where
  "tcn B args kwargs = call_tcn_stft B args kwargs"

subsection \<open>The registry\<close>

text \<open>
  A Python function object: its \<^verbatim>\<open>__name__\<close> and what calling it does.
  \<^verbatim>\<open>_register_as_model\<close> (lines 12-15) stores the function under its name and returns it;
  \<open>model_dict\<close> is the dictionary after the module's three decorated definitions, in their
  order.
\<close>

record pyfunction =
  func_name :: string
  func_call :: "pyval list \<Rightarrow> pydict \<Rightarrow> error + model"

type_synonym registry = "string \<rightharpoonup> pyfunction"

definition register_as_model :: "pyfunction \<Rightarrow> registry \<Rightarrow> registry \<times> pyfunction" where
  "register_as_model func d = (d(func_name func \<mapsto> func), func)"

definition def_tcn :: "backend \<Rightarrow> pyfunction" where
  "def_tcn B = \<lparr>func_name = ''tcn'', func_call = tcn B\<rparr>"

definition def_tcn_stft :: "backend \<Rightarrow> pyfunction" where
  "def_tcn_stft B = \<lparr>func_name = ''tcn_stft'', func_call = call_tcn_stft B\<rparr>"

definition def_tcn_tcn :: "backend \<Rightarrow> pyfunction" where
  "def_tcn_tcn B = \<lparr>func_name = ''tcn_tcn'', func_call = call_tcn_tcn B\<rparr>"

definition model_dict :: "backend \<Rightarrow> registry" where
  "model_dict B =
     (let d0 = Map.empty;
          (d1, f1) = register_as_model (def_tcn B) d0;
          (d2, f2) = register_as_model (def_tcn_stft B) d1;
          (d3, f3) = register_as_model (def_tcn_tcn B) d2
      in d3)"

section \<open>train.py\<close>

subsection \<open>The arguments of \<^verbatim>\<open>train\<close> and its first locals\<close>

text \<open>
  The keyword-only parameters of \<^verbatim>\<open>train\<close> (lines 28-43), typed by their annotations.
  \<^verbatim>\<open>use_separable\<close> is a list of booleans whose default is \<^verbatim>\<open>False\<close>, so it stays a Python
  value; \<open>qt_progress\<close> is \<^verbatim>\<open>_qt_progress\<close>.
\<close>

record train_args =
  data_dir :: string
  y_suffix :: string
  save_dir :: string
  save_prefix :: "string option"
  model_name :: string
  nb_filters :: int
  kernel_size :: int
  nb_conv :: int
  use_separable :: pyval
  nb_hist :: int
  ignore_boundaries :: bool
  batch_norm :: bool
  nb_pre_conv :: int
  pre_nb_dft :: int
  pre_kernel_size :: int
  pre_nb_filters :: int
  pre_nb_conv :: int
  nb_lstm_units :: int
  verbose :: int
  batch_size :: int
  nb_epoch :: int
  learning_rate :: "real option"
  reduce_lr :: bool
  reduce_lr_patience :: int
  fraction_data :: "real option"
  seed :: "int option"
  batch_level_subsampling :: bool
  tensorboard :: bool
  neptune_api_token :: "string option"
  neptune_project :: "string option"
  log_messages :: bool
  nb_stacks :: int
  with_y_hist :: bool
  x_suffix :: string
  balance :: bool
  version_data :: bool
  qt_progress :: bool

text \<open>
  Lines 140-153.  \<^verbatim>\<open>int(np.ceil(kernel_size * nb_conv))\<close> is the ceiling of the product read
  as a real number (numpy computes it in double precision, which is exact for products up to
  \<open>2 ^ 53\<close>); \<^verbatim>\<open>round\<close> is Python 3's, which rounds a half to the even neighbour.
\<close>

record train_locals =
  sample_weight_mode :: "string option"
  data_padding :: int
  return_sequences :: bool
  stride :: int
  y_offset :: int

definition np_ceil :: "real \<Rightarrow> int" where
  "np_ceil x = \<lceil>x\<rceil>"

definition py_round :: "real \<Rightarrow> int" where
  "py_round x =
     (let f = \<lfloor>x\<rfloor>; d = x - of_int f
      in if d < 1 / 2 then f else if 1 / 2 < d then f + 1 else if even f then f else f + 1)"

definition first_locals :: "train_args \<Rightarrow> train_locals" where
  "first_locals a =
     (let l = \<lparr>sample_weight_mode = None, data_padding = 0, return_sequences = False,
               stride = 0, y_offset = 0\<rparr>
      in if with_y_hist a
         then
           (let l = l\<lparr>return_sequences := True, stride := nb_hist a, y_offset := 0,
                      sample_weight_mode := Some ''temporal''\<rparr>
            in if ignore_boundaries a
               then
                 (let l = l\<lparr>data_padding := np_ceil (of_int (kernel_size a * nb_conv a))\<rparr>
                  in l\<lparr>stride := stride l - 2 * data_padding l\<rparr>)
               else l)
         else l\<lparr>return_sequences := False, stride := 1,
                y_offset := py_round (of_int (nb_hist a) / 2)\<rparr>)"

subsection \<open>The outside world: effects and external calls\<close>

text \<open>
  \<^verbatim>\<open>train\<close> is a script over external calls.  A run carries the trace of the calls that
  touch the world outside the process, oldest first: configuring and writing to the error
  log, reading the dataset, creating directories and files, talking to the tracking
  service, training epochs and predictions.  Messages of level \<^verbatim>\<open>info\<close> are not recorded.
\<close>

datatype bundle_value = History "real list" | Value pyval | Params pydict

type_synonym results = "(string \<times> bundle_value) list"

datatype event =
    Basic_config
  | Log_error string
  | Log_exception string
  | Io_load string string string
  | Hash_data string
  | Random_seed "int option"
  | Makedirs string
  | Save_params pydict string
  | Neptune_init string
  | Fit_epoch nat
  | Save_model string weights
  | Tensorboard_logs string
  | Load_weights string
  | Predict weights
  | Log_test_results pyval
  | Fl_save string results

fun loads_data :: "event \<Rightarrow> bool" where
  "loads_data (Io_load d x y) = True"
| "loads_data (Hash_data d) = True"
| "loads_data _ = False"

fun writes_output :: "event \<Rightarrow> bool" where
  "writes_output (Makedirs d) = True"
| "writes_output (Save_params p n) = True"
| "writes_output (Save_model n w) = True"
| "writes_output (Tensorboard_logs d) = True"
| "writes_output (Fl_save n b) = True"
| "writes_output _ = False"

type_synonym 'a run = "event list \<Rightarrow> (error + 'a) \<times> event list"

definition ret :: "'a \<Rightarrow> 'a run" where
  "ret x = (\<lambda>t. (Inr x, t))"

definition raise :: "error \<Rightarrow> 'a run" where
  "raise e = (\<lambda>t. (Inl e, t))"

definition bindR :: "'a run \<Rightarrow> ('a \<Rightarrow> 'b run) \<Rightarrow> 'b run" where
  "bindR m f = (\<lambda>t. case m t of (Inl e, t') \<Rightarrow> (Inl e, t') | (Inr x, t') \<Rightarrow> f x t')"

definition emit :: "event \<Rightarrow> unit run" where
  "emit ev = (\<lambda>t. (Inr (), t @ [ev]))"

text \<open>An expression of the code itself that may raise.\<close>

definition lift :: "error + 'a \<Rightarrow> 'a run" where
  "lift r = (\<lambda>t. (r, t))"

text \<open>A call into a library that computes without touching the world.\<close>

definition lib :: "exn + 'a \<Rightarrow> 'a run" where
  "lib r = (\<lambda>t. (foreign r, t))"

text \<open>An external call: it is recorded, and returns or raises as the world decides.\<close>

definition ext :: "event \<Rightarrow> exn + 'a \<Rightarrow> 'a run" where
  "ext ev r = (\<lambda>t. (foreign r, t @ [ev]))"

definition ext_unit :: "event \<Rightarrow> exn option \<Rightarrow> unit run" where
  "ext_unit ev r = ext ev (case r of None \<Rightarrow> Inr () | Some x \<Rightarrow> Inl x)"

text \<open>
  What \<^verbatim>\<open>io.load\<close> returns, as far as \<^verbatim>\<open>train\<close> looks at it: the attributes, the shapes of
  \<^verbatim>\<open>d['train']['x']\<close> and \<^verbatim>\<open>d['val']['x']\<close>, and \<^verbatim>\<open>len(d['test']['x'])\<close>.
\<close>

record dataset =
  attrs :: pydict
  train_x_shape :: "int list"
  val_x_shape :: "int list"
  test_x_len :: int

datatype generator = AudioSequence_object string int

fun len_generator :: "generator \<Rightarrow> int" where
  "len_generator (AudioSequence_object split n) = n"

datatype callback =
    ModelCheckpoint string bool bool string
  | EarlyStopping string int
  | ReduceLROnPlateau int
  | QtProgressCallback int
  | TensorBoard string
  | Neptune_callback

datatype poseidon = Poseidon_object string

text \<open>
  The calls \<^verbatim>\<open>train\<close> makes into code that is not part of the two files: the other modules
  of the package (\<^verbatim>\<open>io\<close>, \<^verbatim>\<open>data\<close>, \<^verbatim>\<open>data_hash\<close>, \<^verbatim>\<open>utils\<close>, \<^verbatim>\<open>neptune\<close>, \<^verbatim>\<open>evaluate\<close>,
  \<^verbatim>\<open>predict\<close>), the clock, the file system, scikit-learn, flammkuchen and the training of
  one epoch.  Each returns a value or raises; which, the environment says.
  \<^item> \<open>rescale_fraction\<close> is the floating-point computation of lines 188-189;
  \<^item> \<open>epoch_outcome i\<close> is what training epoch \<open>i\<close> and validating after it does: it raises,
    or it reports the validation loss;
  \<^item> \<open>qt_stop i\<close> says whether the GUI has asked to stop by the end of epoch \<open>i\<close>;
  \<^item> \<open>Poseidon\<close> and \<open>poseidon_callback\<close> are \<^verbatim>\<open>neptune.Poseidon(...)\<close> and its
    \<^verbatim>\<open>callback()\<close>: \<open>None\<close> when they return, the exception when they raise.
\<close>

record env =
  layers :: backend
  io_load :: "string \<Rightarrow> string \<Rightarrow> string \<Rightarrow> exn + dataset"
  hash_data :: "string \<Rightarrow> exn + string"
  rescale_fraction :: "real \<Rightarrow> dataset \<Rightarrow> exn + real"
  sub_range :: "int \<Rightarrow> real \<Rightarrow> int \<Rightarrow> int option \<Rightarrow> exn + int \<times> int"
  AudioSequence :: "string \<Rightarrow> bool \<Rightarrow> real option \<Rightarrow> pydict \<Rightarrow> exn + generator"
  compute_class_weight :: "dataset \<Rightarrow> exn + pyval"
  makedirs :: "string \<Rightarrow> exn option"
  strftime :: string
  save_params :: "pydict \<Rightarrow> string \<Rightarrow> exn option"
  HAS_NEPTUNE :: bool
  Poseidon :: "string \<Rightarrow> string \<Rightarrow> pydict \<Rightarrow> exn option"
  poseidon_callback :: "exn option"
  epoch_outcome :: "nat \<Rightarrow> exn + real"
  qt_stop :: "nat \<Rightarrow> bool"
  evaluate_probabilities :: "weights \<Rightarrow> pydict \<Rightarrow> exn + pyval \<times> pyval \<times> pyval"
  labels_from_probabilities :: "pyval \<Rightarrow> exn + pyval"
  evaluate_segments :: "pyval \<Rightarrow> pyval \<Rightarrow> pyval \<Rightarrow> exn + pyval \<times> pyval"
  log_test_results :: "pyval \<Rightarrow> exn option"
  fl_save :: "string \<Rightarrow> exn option"

subsection \<open>Small Python operations\<close>

text \<open>\<^verbatim>\<open>sub in s\<close> on strings, \<^verbatim>\<open>shape[i]\<close> on a tuple, \<^verbatim>\<open>len(v)\<close>, and the truth of an optional string.\<close>

fun starts_with :: "string \<Rightarrow> string \<Rightarrow> bool" where
  "starts_with [] s = True"
| "starts_with (c # cs) [] = False"
| "starts_with (c # cs) (d # ds) = (c = d \<and> starts_with cs ds)"

fun contains :: "string \<Rightarrow> string \<Rightarrow> bool" where
  "contains sub [] = (sub = [])"
| "contains sub (c # cs) = (starts_with sub (c # cs) \<or> contains sub cs)"

definition dim :: "int list \<Rightarrow> int \<Rightarrow> error + int" where
  "dim s i =
     (if 0 \<le> i \<and> i < int (length s) then Inr (s ! nat i)
      else if i < 0 \<and> 0 \<le> int (length s) + i then Inr (s ! nat (int (length s) + i))
      else Inl (IndexError ''tuple index out of range''))"

fun py_len :: "pyval \<Rightarrow> error + int" where
  "py_len (PList vs) = Inr (int (length vs))"
| "py_len (PStr s) = Inr (int (length s))"
| "py_len _ = Inl (TypeError ''object has no len()'')"

fun truthy :: "string option \<Rightarrow> bool" where
  "truthy None = False"
| "truthy (Some s) = (s \<noteq> [])"

fun optional :: "('a \<Rightarrow> pyval) \<Rightarrow> 'a option \<Rightarrow> pyval" where
  "optional f None = PNone"
| "optional f (Some x) = f x"

subsection \<open>\<^verbatim>\<open>train\<close>, lines 136-173: locals, parameter dictionary, validation\<close>

text \<open>
  \<^verbatim>\<open>params = locals()\<close> (line 162): the parameters and the locals assigned so far, by name.
\<close>

definition locals_dict :: "train_args \<Rightarrow> train_locals \<Rightarrow> int \<Rightarrow> string \<Rightarrow> pydict" where
  "locals_dict a l output_stride save_prefix' =
     map_of
      [(''data_dir'', PStr (data_dir a)),
       (''y_suffix'', PStr (y_suffix a)),
       (''save_dir'', PStr (save_dir a)),
       (''save_prefix'', PStr save_prefix'),
       (''model_name'', PStr (model_name a)),
       (''nb_filters'', PInt (nb_filters a)),
       (''kernel_size'', PInt (kernel_size a)),
       (''nb_conv'', PInt (nb_conv a)),
       (''use_separable'', use_separable a),
       (''nb_hist'', PInt (nb_hist a)),
       (''ignore_boundaries'', PBool (ignore_boundaries a)),
       (''batch_norm'', PBool (batch_norm a)),
       (''nb_pre_conv'', PInt (nb_pre_conv a)),
       (''pre_nb_dft'', PInt (pre_nb_dft a)),
       (''pre_kernel_size'', PInt (pre_kernel_size a)),
       (''pre_nb_filters'', PInt (pre_nb_filters a)),
       (''pre_nb_conv'', PInt (pre_nb_conv a)),
       (''nb_lstm_units'', PInt (nb_lstm_units a)),
       (''verbose'', PInt (verbose a)),
       (''batch_size'', PInt (batch_size a)),
       (''nb_epoch'', PInt (nb_epoch a)),
       (''learning_rate'', optional PFloat (learning_rate a)),
       (''reduce_lr'', PBool (reduce_lr a)),
       (''reduce_lr_patience'', PInt (reduce_lr_patience a)),
       (''fraction_data'', optional PFloat (fraction_data a)),
       (''seed'', optional PInt (seed a)),
       (''batch_level_subsampling'', PBool (batch_level_subsampling a)),
       (''tensorboard'', PBool (tensorboard a)),
       (''neptune_api_token'', optional PStr (neptune_api_token a)),
       (''neptune_project'', optional PStr (neptune_project a)),
       (''log_messages'', PBool (log_messages a)),
       (''nb_stacks'', PInt (nb_stacks a)),
       (''with_y_hist'', PBool (with_y_hist a)),
       (''x_suffix'', PStr (x_suffix a)),
       (''balance'', PBool (balance a)),
       (''version_data'', PBool (version_data a)),
       (''_qt_progress'', PBool (qt_progress a)),
       (''sample_weight_mode'', optional PStr (sample_weight_mode l)),
       (''data_padding'', PInt (data_padding l)),
       (''return_sequences'', PBool (return_sequences l)),
       (''stride'', PInt (stride l)),
       (''y_offset'', PInt (y_offset l)),
       (''output_stride'', PInt output_stride)]"

text \<open>Lines 157-161: the prefix of the output names.\<close>

definition adjusted_prefix :: "train_args \<Rightarrow> string" where
  "adjusted_prefix a =
     (let save_prefix' = (case save_prefix a of None \<Rightarrow> [] | Some p \<Rightarrow> p)
      in if length save_prefix' \<noteq> 0 then save_prefix' @ ''_'' else save_prefix')"

definition stride_message :: string where
  "stride_message =
     ''Stride <=0 - needs to be >0. Possible solutions: reduce kernel_size, increase nb_hist parameters, uncheck ignore_boundaries''"

text \<open>
  Lines 136-173.  The result is the parameter dictionary and the adjusted \<^verbatim>\<open>save_prefix\<close>.
\<close>

definition configure :: "train_args \<Rightarrow> (pydict \<times> string) run" where
  "configure a =
     bindR (if log_messages a then emit Basic_config else ret ())
     (\<lambda>_.
     let l = first_locals a;
         output_stride = 1;
         save_prefix' = adjusted_prefix a;
         params = locals_dict a l output_stride save_prefix';
         params = params(''_qt_progress'' := None)
     in
     if stride l \<le> 0 then raise (ValueError stride_message)
     else
       let params = (if params ''learning_rate'' = Some PNone
                     then params(''learning_rate'' := None) else params);
           params = (if contains ''_multi'' (model_name a)
                     then params(''unpack_channels'' \<mapsto> PBool True) else params)
       in ret (params, save_prefix'))"

subsection \<open>\<^verbatim>\<open>train\<close>, lines 175-245: the data\<close>

text \<open>Lines 175-184: loading the dataset, merging its attributes into the parameters.\<close>

definition load_dataset :: "env \<Rightarrow> train_args \<Rightarrow> pydict \<Rightarrow> (dataset \<times> pydict) run" where
  "load_dataset E a params =
     bindR (ext (Io_load (data_dir a) (x_suffix a) (y_suffix a))
              (io_load E (data_dir a) (x_suffix a) (y_suffix a)))
     (\<lambda>d.
     let params = params ++ attrs d in
     if version_data a
     then bindR (ext (Hash_data (data_dir a)) (hash_data E (data_dir a)))
            (\<lambda>h. ret (d, params(''data_hash'' \<mapsto> PStr h)))
     else ret (d, params))"

text \<open>
  Lines 186-199: the fraction of the data to train on, and the first and last samples of
  the training and validation data.
\<close>

definition select_samples ::
  "env \<Rightarrow> train_args \<Rightarrow> dataset \<Rightarrow> (real option \<times> pyval \<times> pyval \<times> pyval \<times> pyval) run" where
  "select_samples E a d =
     bindR (case fraction_data a of
              None \<Rightarrow> ret None
            | Some f \<Rightarrow>
                if 1 < f then bindR (lib (rescale_fraction E f d)) (\<lambda>f'. ret (Some f'))
                else ret (Some f))
     (\<lambda>fraction_data'.
     case fraction_data' of
       Some f \<Rightarrow>
         if \<not> batch_level_subsampling a
         then
           (let min_nb_samples = nb_hist a * (batch_size a + 2) in
            bindR (lift (dim (train_x_shape d) 0))
            (\<lambda>n_train.
            bindR (lib (sub_range E n_train f min_nb_samples (seed a)))
            (\<lambda>(first_train, last_train).
            bindR (lift (dim (val_x_shape d) 0))
            (\<lambda>n_val.
            bindR (lib (sub_range E n_val f min_nb_samples (seed a)))
            (\<lambda>(first_val, last_val).
            ret (fraction_data', PInt first_train, PInt last_train,
                 PInt first_val, PInt last_val))))))
         else ret (fraction_data', PInt 0, PNone, PInt 0, PNone)
     | None \<Rightarrow> ret (fraction_data', PInt 0, PNone, PInt 0, PNone))"

text \<open>Lines 202-205: the shape of the data and the selected samples enter the parameters.\<close>

definition describe_data ::
  "dataset \<Rightarrow> pydict \<Rightarrow> pyval \<Rightarrow> pyval \<Rightarrow> pyval \<Rightarrow> pyval \<Rightarrow> pydict run" where
  "describe_data d params first_sample_train last_sample_train first_sample_val
     last_sample_val =
     bindR (lift (dim (train_x_shape d) 1))
     (\<lambda>nb_freq.
     bindR (lift (dim (train_x_shape d) (- 1)))
     (\<lambda>nb_channels.
     bindR (lift (case params ''class_names'' of
                    None \<Rightarrow> Inl (KeyError ''class_names'')
                  | Some names \<Rightarrow> py_len names))
     (\<lambda>nb_classes.
     ret (params(''nb_freq'' \<mapsto> PInt nb_freq, ''nb_channels'' \<mapsto> PInt nb_channels,
                 ''nb_classes'' \<mapsto> PInt nb_classes,
                 ''first_sample_train'' \<mapsto> first_sample_train,
                 ''last_sample_train'' \<mapsto> last_sample_train,
                 ''first_sample_val'' \<mapsto> first_sample_val,
                 ''last_sample_val'' \<mapsto> last_sample_val)))))"

text \<open>Lines 209-223: the generators of training and validation batches.\<close>

definition make_generators ::
  "env \<Rightarrow> train_args \<Rightarrow> pydict \<Rightarrow> real option \<Rightarrow> (generator \<times> generator) run" where
  "make_generators E a params fraction_data' =
     bindR (case fraction_data' of
              Some f \<Rightarrow>
                if batch_level_subsampling a
                then bindR (emit (Random_seed (seed a))) (\<lambda>_. ret (Some f))
                else ret None
            | None \<Rightarrow> ret None)
     (\<lambda>shuffle_subset.
     bindR (lib (AudioSequence E ''train'' True shuffle_subset params))
     (\<lambda>data_gen.
     bindR (lib (AudioSequence E ''val'' False shuffle_subset params))
     (\<lambda>val_gen. ret (data_gen, val_gen))))"

text \<open>Lines 238-245: the class weights.\<close>

definition class_weights :: "env \<Rightarrow> train_args \<Rightarrow> dataset \<Rightarrow> pydict \<Rightarrow> pydict run" where
  "class_weights E a d params =
     (let params = params(''class_weights'' \<mapsto> PNone) in
      if balance a
      then bindR (lib (compute_class_weight E d))
             (\<lambda>w. ret (params(''class_weights'' \<mapsto> w)))
      else ret params)"

definition load_data ::
  "env \<Rightarrow> train_args \<Rightarrow> pydict \<Rightarrow> (dataset \<times> pydict \<times> generator \<times> generator) run" where
  "load_data E a params =
     bindR (load_dataset E a params)
     (\<lambda>(d, params).
     bindR (select_samples E a d)
     (\<lambda>(fraction_data', first_sample_train, last_sample_train, first_sample_val,
         last_sample_val).
     bindR (describe_data d params first_sample_train last_sample_train first_sample_val
              last_sample_val)
     (\<lambda>params.
     bindR (make_generators E a params fraction_data')
     (\<lambda>(data_gen, val_gen).
     bindR (class_weights E a d params)
     (\<lambda>params. ret (d, params, data_gen, val_gen))))))"

subsection \<open>\<^verbatim>\<open>train\<close>, line 248: the network\<close>

text \<open>\<^verbatim>\<open>model = models.model_dict[model_name](**params)\<close>.\<close>

definition build_network :: "env \<Rightarrow> train_args \<Rightarrow> pydict \<Rightarrow> model run" where
  "build_network E a params =
     lift (case model_dict (layers E) (model_name a) of
             None \<Rightarrow> Inl (KeyError (model_name a))
           | Some func \<Rightarrow> func_call func [] params)"

subsection \<open>\<^verbatim>\<open>train\<close>, lines 251-279: output names, callbacks, experiment tracking\<close>

text \<open>Lines 258-268: the callbacks of \<^verbatim>\<open>model.fit\<close>.\<close>

definition make_callbacks :: "train_args \<Rightarrow> string \<Rightarrow> callback list" where
  "make_callbacks a checkpoint_save_name =
     (let callbacks = [ModelCheckpoint checkpoint_save_name True False ''val_loss'',
                       EarlyStopping ''val_loss'' 20];
          callbacks = (if reduce_lr a
                       then callbacks @ [ReduceLROnPlateau (reduce_lr_patience a)]
                       else callbacks);
          callbacks = (if qt_progress a
                       then callbacks @ [QtProgressCallback (nb_epoch a)] else callbacks);
          callbacks = (if tensorboard a
                       then callbacks @ [TensorBoard (save_dir a)] else callbacks)
      in callbacks)"

text \<open>
  Lines 271-279: the experiment tracking.  The result is the local \<^verbatim>\<open>poseidon\<close>, which stays
  unbound (\<open>None\<close>) unless the constructor has returned, and the callbacks.
\<close>

definition setup_neptune ::
  "env \<Rightarrow> train_args \<Rightarrow> pydict \<Rightarrow> callback list \<Rightarrow> (poseidon option \<times> callback list) run" where
  "setup_neptune E a params callbacks =
     (if truthy (neptune_api_token a) \<and> truthy (neptune_project a)
      then
        if \<not> HAS_NEPTUNE E
        then bindR (emit (Log_error ''Could not import neptune in das.neptune.''))
               (\<lambda>_. ret (None, callbacks))
        else
          (let project = (case neptune_project a of None \<Rightarrow> [] | Some p \<Rightarrow> p);
               token = (case neptune_api_token a of None \<Rightarrow> [] | Some k \<Rightarrow> k)
           in
           bindR (emit (Neptune_init project))
           (\<lambda>_.
           case Poseidon E project token params of
             Some e \<Rightarrow>
               bindR (emit (Log_exception ''Neptune stuff failed.''))
                 (\<lambda>_. ret (None, callbacks))
           | None \<Rightarrow>
               (case poseidon_callback E of
                  Some e \<Rightarrow>
                    bindR (emit (Log_exception ''Neptune stuff failed.''))
                      (\<lambda>_. ret (Some (Poseidon_object project), callbacks))
                | None \<Rightarrow>
                    ret (Some (Poseidon_object project),
                         callbacks @ [Neptune_callback]))))
      else ret (None, callbacks))"

definition prepare_outputs ::
  "env \<Rightarrow> train_args \<Rightarrow> pydict \<Rightarrow> string \<Rightarrow>
   (string \<times> string \<times> callback list \<times> poseidon option \<times> pydict) run" where
  "prepare_outputs E a params save_prefix' =
     bindR (ext_unit (Makedirs (save_dir a)) (makedirs E (save_dir a)))
     (\<lambda>_.
     let save_name = save_dir a @ ''/'' @ save_prefix' @ strftime E in
     bindR (ext_unit (Save_params params save_name) (save_params E params save_name))
     (\<lambda>_.
     let checkpoint_save_name = save_name @ ''_model.h5'';
         callbacks = make_callbacks a checkpoint_save_name;
         params = params(''neptune_api_token'' := None)
     in
     bindR (setup_neptune E a params callbacks)
     (\<lambda>(poseidon, callbacks).
     ret (save_name, checkpoint_save_name, callbacks, poseidon, params))))"

subsection \<open>\<^verbatim>\<open>model.fit\<close> and its callbacks\<close>

text \<open>
  Keras' training loop, as far as the callbacks \<^verbatim>\<open>train\<close> installs make it visible; it
  follows the Keras documentation of \<^verbatim>\<open>Model.fit\<close>, \<^verbatim>\<open>ModelCheckpoint\<close> and \<^verbatim>\<open>EarlyStopping\<close>.
  For each epoch up to \<^verbatim>\<open>epochs\<close>: the epoch is trained and validated, every callback's
  \<^verbatim>\<open>on_epoch_end\<close> runs in list order, and the loop ends when a callback has set
  \<^verbatim>\<open>stop_training\<close>.
  \<^item> \<^verbatim>\<open>ModelCheckpoint(path, save_best_only=True, monitor='val_loss')\<close> starts with the best
    value \<^verbatim>\<open>inf\<close> (here \<open>None\<close>) and writes the model to \<^verbatim>\<open>path\<close> when the loss is less than
    the best so far; without \<^verbatim>\<open>save_best_only\<close> it writes after every epoch.
  \<^item> \<^verbatim>\<open>EarlyStopping(monitor='val_loss', patience)\<close> counts the epochs since the loss last
    went below its best, and stops at \<^verbatim>\<open>patience\<close>.
  \<^item> \<^verbatim>\<open>QtProgressCallback\<close> stops when the GUI has asked to.
  \<^item> \<^verbatim>\<open>TensorBoard(log_dir)\<close> writes its logs under \<^verbatim>\<open>log_dir\<close>.
  \<^item> \<^verbatim>\<open>ReduceLROnPlateau\<close> and the tracking callback change nothing that is modelled.
  Callbacks that monitor anything but \<^verbatim>\<open>'val_loss'\<close> find no value and do nothing.
\<close>

record fit_state =
  cur_weights :: weights
  ckpt_best :: "real option"
  es_best :: "real option"
  es_wait :: int
  stop_training :: bool
  hist :: "real list"

definition improved :: "real \<Rightarrow> real option \<Rightarrow> bool" where
  "improved v best = (case best of None \<Rightarrow> True | Some b \<Rightarrow> v < b)"

fun on_epoch_end :: "env \<Rightarrow> nat \<Rightarrow> real \<Rightarrow> callback \<Rightarrow> fit_state \<Rightarrow> fit_state run" where
  "on_epoch_end E i v (ModelCheckpoint path save_best_only save_weights_only monitor) s =
     (if monitor \<noteq> ''val_loss'' then ret s
      else if save_best_only
      then (if improved v (ckpt_best s)
            then bindR (emit (Save_model path (cur_weights s)))
                   (\<lambda>_. ret (s\<lparr>ckpt_best := Some v\<rparr>))
            else ret s)
      else bindR (emit (Save_model path (cur_weights s))) (\<lambda>_. ret s))"
| "on_epoch_end E i v (EarlyStopping monitor patience) s =
     (if monitor \<noteq> ''val_loss'' then ret s
      else if improved v (es_best s) then ret (s\<lparr>es_best := Some v, es_wait := 0\<rparr>)
      else
        (let s = s\<lparr>es_wait := es_wait s + 1\<rparr>
         in if patience \<le> es_wait s then ret (s\<lparr>stop_training := True\<rparr>) else ret s))"
| "on_epoch_end E i v (ReduceLROnPlateau patience) s = ret s"
| "on_epoch_end E i v (QtProgressCallback n) s =
     (if qt_stop E i then ret (s\<lparr>stop_training := True\<rparr>) else ret s)"
| "on_epoch_end E i v (TensorBoard log_dir) s =
     bindR (emit (Tensorboard_logs log_dir)) (\<lambda>_. ret s)"
| "on_epoch_end E i v Neptune_callback s = ret s"

fun callbacks_on_epoch_end ::
  "env \<Rightarrow> nat \<Rightarrow> real \<Rightarrow> callback list \<Rightarrow> fit_state \<Rightarrow> fit_state run" where
  "callbacks_on_epoch_end E i v [] s = ret s"
| "callbacks_on_epoch_end E i v (c # cs) s =
     bindR (on_epoch_end E i v c s) (\<lambda>s. callbacks_on_epoch_end E i v cs s)"

text \<open>\<open>fit_loop E cbs n i s\<close>: the epochs \<open>i, i + 1, ...\<close>, at most \<open>n\<close> of them.\<close>

fun fit_loop :: "env \<Rightarrow> callback list \<Rightarrow> nat \<Rightarrow> nat \<Rightarrow> fit_state \<Rightarrow> fit_state run" where
  "fit_loop E cbs 0 i s = ret s"
| "fit_loop E cbs (Suc n) i s =
     (if stop_training s then ret s
      else
        bindR (ext (Fit_epoch i) (epoch_outcome E i))
        (\<lambda>v.
        bindR (callbacks_on_epoch_end E i v cbs
                 (s\<lparr>cur_weights := After_epoch i, hist := hist s @ [v]\<rparr>))
        (\<lambda>s. fit_loop E cbs n (Suc i) s)))"

text \<open>
  \<^verbatim>\<open>model.fit(data_gen, epochs=..., callbacks=...)\<close>: the history of validation losses
  and the model with the weights of the last epoch trained.
\<close>

definition fit :: "env \<Rightarrow> model \<Rightarrow> int \<Rightarrow> callback list \<Rightarrow> (real list \<times> model) run" where
  "fit E model epochs callbacks =
     bindR (fit_loop E callbacks (nat epochs) 0
              \<lparr>cur_weights = m_weights model, ckpt_best = None, es_best = None,
               es_wait = 0, stop_training = False, hist = []\<rparr>)
     (\<lambda>s. ret (hist s, model\<lparr>m_weights := cur_weights s\<rparr>))"

text \<open>
  \<^verbatim>\<open>model.load_weights(path)\<close> reads the file that the run has last written to \<^verbatim>\<open>path\<close>; the
  output names carry the time stamp of the run, so a file that the run has not written is
  taken not to exist.
\<close>

fun saved_model :: "event list \<Rightarrow> string \<Rightarrow> weights option" where
  "saved_model [] path = None"
| "saved_model (ev # t) path =
     (case saved_model t path of
        Some w \<Rightarrow> Some w
      | None \<Rightarrow> (case ev of
                   Save_model p w \<Rightarrow> if p = path then Some w else None
                 | _ \<Rightarrow> None))"

definition load_weights :: "model \<Rightarrow> string \<Rightarrow> model run" where
  "load_weights model path =
     (\<lambda>t. ext (Load_weights path)
             (case saved_model t path of
                None \<Rightarrow> Inl ''Unable to open file''
              | Some w \<Rightarrow> Inr (model\<lparr>m_weights := w\<rparr>)) t)"

subsection \<open>\<^verbatim>\<open>train\<close>, lines 293-331: the final evaluation\<close>

definition final_evaluation ::
  "env \<Rightarrow> train_args \<Rightarrow> dataset \<Rightarrow> pydict \<Rightarrow> model \<Rightarrow> real list \<Rightarrow> string \<Rightarrow> string \<Rightarrow>
   poseidon option \<Rightarrow> (model \<times> pydict) option run" where
  "final_evaluation E a d params model fit_hist save_name checkpoint_save_name poseidon =
     (if test_x_len d < nb_hist a then ret None
      else
        bindR (load_weights model checkpoint_save_name)
        (\<lambda>model.
        bindR (ext (Predict (m_weights model))
                 (evaluate_probabilities E (m_weights model) params))
        (\<lambda>(x_test, y_test, y_pred).
        bindR (lib (labels_from_probabilities E y_test))
        (\<lambda>labels_test.
        bindR (lib (labels_from_probabilities E y_pred))
        (\<lambda>labels_pred.
        bindR (lift (case params ''class_names'' of
                       None \<Rightarrow> Inl (KeyError ''class_names'')
                     | Some names \<Rightarrow>
                         foreign (evaluate_segments E labels_test labels_pred names)))
        (\<lambda>(conf_mat, report).
        bindR (if truthy (neptune_api_token a) \<and> truthy (neptune_project a)
               then (case poseidon of
                       None \<Rightarrow>
                         raise (UnboundLocalError
                                  ''local variable poseidon referenced before assignment'')
                     | Some p \<Rightarrow>
                         ext_unit (Log_test_results report) (log_test_results E report))
               else ret ())
        (\<lambda>_.
        let save_filename = save_name @ ''_results.h5'';
            d = [(''fit_hist'', History fit_hist),
                 (''confusion_matrix'', Value conf_mat),
                 (''classification_report'', Value report),
                 (''x_test'', Value x_test),
                 (''y_test'', Value y_test),
                 (''y_pred'', Value y_pred),
                 (''labels_test'', Value labels_test),
                 (''labels_pred'', Value labels_pred),
                 (''params'', Params params)]
        in
        bindR (ext_unit (Fl_save save_filename d) (fl_save E save_filename))
        (\<lambda>_. ret (Some (model, params))))))))))"

subsection \<open>\<^verbatim>\<open>train\<close>\<close>

text \<open>
  The whole function.  It returns \<open>None\<close> at line 296 and the model and the parameters at
  line 331.  \<open>build\<close> is the part up to the built network (lines 136-250), \<open>train\<close> goes on
  from there.
\<close>

definition build ::
  "env \<Rightarrow> train_args \<Rightarrow>
   (string \<times> dataset \<times> pydict \<times> generator \<times> generator \<times> model) run" where
  "build E a =
     bindR (configure a)
     (\<lambda>(params, save_prefix').
     bindR (load_data E a params)
     (\<lambda>(d, params, data_gen, val_gen).
     bindR (build_network E a params)
     (\<lambda>model. ret (save_prefix', d, params, data_gen, val_gen, model))))"

definition train :: "env \<Rightarrow> train_args \<Rightarrow> (model \<times> pydict) option run" where
  "train E a =
     bindR (build E a)
     (\<lambda>(save_prefix', d, params, data_gen, val_gen, model).
     bindR (prepare_outputs E a params save_prefix')
     (\<lambda>(save_name, checkpoint_save_name, callbacks, poseidon, params).
     bindR (fit E model (nb_epoch a) callbacks)
     (\<lambda>(fit_hist, model).
     final_evaluation E a d params model fit_hist save_name checkpoint_save_name poseidon)))"

section \<open>A concrete run\<close>

text \<open>
  A small dataset with two classes, a world in which every external call succeeds, and the
  default arguments of \<^verbatim>\<open>train\<close> (with three epochs instead of 400).  The validation losses
  of the epochs are 3, 1, 2, 2, ...
\<close>

definition demo_dataset :: dataset where
  "demo_dataset =
     \<lparr>attrs = [''class_names'' \<mapsto> PList [PStr ''noise'', PStr ''pulse''],
               ''samplerate_x_Hz'' \<mapsto> PFloat 10000],
      train_x_shape = [8192, 1], val_x_shape = [4096, 1], test_x_len = 4096\<rparr>"

definition demo_world :: "dataset \<Rightarrow> env" where
  "demo_world d =
     \<lparr>layers = spec_backend,
      io_load = (\<lambda>dir x y. Inr d),
      hash_data = (\<lambda>dir. Inr ''0cc175b9c0f1b6a831c399e269772661''),
      rescale_fraction = (\<lambda>f d. Inr 1),
      sub_range = (\<lambda>n f m sd. Inr (0, n)),
      AudioSequence = (\<lambda>split shuffle subset params. Inr (AudioSequence_object split 4)),
      compute_class_weight = (\<lambda>d. Inr (PList [PFloat 1, PFloat 1])),
      makedirs = (\<lambda>dir. None),
      strftime = ''20200101_120000'',
      save_params = (\<lambda>params nm. None),
      HAS_NEPTUNE = False,
      Poseidon = (\<lambda>project token params. None),
      poseidon_callback = None,
      epoch_outcome = (\<lambda>i. Inr (if i = 0 then 3 else if i = 1 then 1 else 2)),
      qt_stop = (\<lambda>i. False),
      evaluate_probabilities = (\<lambda>w params. Inr (PList [], PList [], PList [])),
      labels_from_probabilities = (\<lambda>y. Inr y),
      evaluate_segments = (\<lambda>lt lp names. Inr (PList [], PList [])),
      log_test_results = (\<lambda>report. None),
      fl_save = (\<lambda>nm. None)\<rparr>"

definition demo_env :: env where
  "demo_env = demo_world demo_dataset"

definition demo_args :: train_args where
  "demo_args =
     \<lparr>data_dir = ''dat'', y_suffix = [], save_dir = ''res'', save_prefix = None,
      model_name = ''tcn'', nb_filters = 16, kernel_size = 16, nb_conv = 3,
      use_separable = PBool False, nb_hist = 1024, ignore_boundaries = True,
      batch_norm = True, nb_pre_conv = 0, pre_nb_dft = 64, pre_kernel_size = 3,
      pre_nb_filters = 16, pre_nb_conv = 2, nb_lstm_units = 0, verbose = 2,
      batch_size = 32, nb_epoch = 3, learning_rate = None, reduce_lr = False,
      reduce_lr_patience = 5, fraction_data = None, seed = None,
      batch_level_subsampling = False, tensorboard = False, neptune_api_token = None,
      neptune_project = None, log_messages = False, nb_stacks = 2, with_y_hist = True,
      x_suffix = [], balance = False, version_data = True, qt_progress = False\<rparr>"


definition lr_attr_dataset :: dataset where
  "lr_attr_dataset = demo_dataset\<lparr>attrs := (attrs demo_dataset)(''learning_rate'' \<mapsto> PFloat 0.1)\<rparr>"


section \<open>Predicates on runs and traces\<close>

text \<open>
  What the properties below say about a run: that it never raises a \<^verbatim>\<open>ValueError\<close>, and
  that every event it adds to the trace is of a given kind.
\<close>

fun is_ValueError :: "error \<Rightarrow> bool" where
  "is_ValueError (ValueError msg) = True"
| "is_ValueError _ = False"

definition no_ValueError :: "'a run \<Rightarrow> bool" where
  "no_ValueError m = (\<forall>t e t'. m t = (Inl e, t') \<longrightarrow> \<not> is_ValueError e)"

definition no_ValueError_result :: "error + 'a \<Rightarrow> bool" where
  "no_ValueError_result r = (\<forall>e. r = Inl e \<longrightarrow> \<not> is_ValueError e)"







subsection \<open>Output names and the best epoch\<close>






section \<open>Properties of the builders\<close>

subsection \<open>Exceptions and layer calls\<close>

lemma bindE_Inr_iff: "bindE m f = Inr y \<longleftrightarrow> (\<exists>x. m = Inr x \<and> f x = Inr y)"
  by (cases m) (simp_all add: bindE_def)

lemma bindE_simps [simp]: "bindE (Inr x) f = f x" "bindE (Inl e) f = Inl e"
  by (simp_all add: bindE_def)

lemma foreign_simps [simp]: "foreign (Inr x) = Inr x" "foreign (Inl z) = Inl (LibraryError z)"
  by (simp_all add: foreign_def)

lemma foreign_Inr_iff [simp]: "foreign r = Inr x \<longleftrightarrow> r = Inr x"
  by (cases r) simp_all

lemma call_Inr_iff:
  "call B l x = Inr y \<longleftrightarrow>
     (\<exists>s. output_shape B l (shape x) = Inr s \<and> y = \<lparr>shape = s, history = history x @ [(l, s)]\<rparr>)"
  by (auto simp: call_def bindE_Inr_iff)

lemma Dense_iff: "output_shape B (Dense u) s = Inr s' \<longleftrightarrow> s \<noteq> [] \<and> s' = butlast s @ [u]"
  by (auto simp: output_shape_def split: list.splits)

lemma Activation_iff: "output_shape B (Activation a) s = Inr s' \<longleftrightarrow> s' = s"
  by (auto simp: output_shape_def)

lemma UpSampling1D_iff:
  "output_shape B (UpSampling1D f) s = Inr s' \<longleftrightarrow>
     (\<exists>steps features. s = [steps, features] \<and> s' = [steps * f, features])"
  by (auto simp: output_shape_def split: list.splits)

lemma MaxPooling1D_iff:
  "output_shape B (MaxPooling1D p st) s = Inr s' \<longleftrightarrow>
     (\<exists>steps features. s = [steps, features] \<and> 0 < st \<and> p \<le> steps \<and>
        s' = [(steps - p) div st + 1, features])"
  by (auto simp: output_shape_def split: list.splits)

lemma Bidirectional_LSTM_iff:
  "output_shape B (Bidirectional_LSTM u) s = Inr s' \<longleftrightarrow>
     (\<exists>steps features. s = [steps, features] \<and> s' = [steps, 2 * u])"
  by (auto simp: output_shape_def split: list.splits)

lemma Reshape_iff:
  "output_shape B (Reshape target) s = Inr s' \<longleftrightarrow> prod_list s = prod_list target \<and> s' = target"
  by (auto simp: output_shape_def)

lemma spec_TCN_iff:
  "output_shape spec_backend (TCN nf ks ns dil act skip pad dr rs sep nm) s = Inr s' \<longleftrightarrow>
     (pad = ''causal'' \<or> pad = ''same'') \<and>
     (\<exists>steps features. s = [steps, features] \<and> s' = (if rs then [steps, nf] else [nf]))"
  by (auto simp: output_shape_def spec_backend_def spec_TCN_shape_def split: list.splits)

lemma spec_Spectrogram_iff:
  "output_shape spec_backend (Spectrogram d h) s = Inr s' \<longleftrightarrow>
     (\<exists>steps channels. s = [steps, channels] \<and> 0 < h \<and> d \<le> steps \<and>
        s' = [(steps + h - 1) div h, d div 2 + 1, channels])"
  by (auto simp: output_shape_def spec_backend_def spec_Spectrogram_shape_def split: list.splits)

lemmas layer_iffs = Dense_iff Activation_iff UpSampling1D_iff MaxPooling1D_iff
  Bidirectional_LSTM_iff Reshape_iff spec_TCN_iff spec_Spectrogram_iff

lemma pool_steps: "0 < (f::int) \<Longrightarrow> (n - f) div f + 1 = n div f"
  by (metis add.commute diff_add_cancel div_add_self2 less_irrefl)


lemma tcn_tcn_history:
  fixes nb_freq nb_classes nb_hist nb_filters kernel_size nb_conv nb_pre_conv :: int
    and return_sequences :: bool and sample_weight_mode :: "string option"
    and learning_rate :: real and use_separable :: pyval
  assumes "tcn_tcn spec_backend nb_freq nb_classes nb_hist nb_filters kernel_size nb_conv loss dilations
     activation use_skip_connections return_sequences dropout_rate padding
     sample_weight_mode nb_pre_conv learning_rate upsample
     use_separable = Inr m" and "0 < nb_pre_conv"
  shows "history (m_outputs m) = 
      [(Input [nb_hist, nb_freq], [nb_hist, nb_freq]),
       (TCN nb_filters kernel_size nb_pre_conv (default_dilations dilations) activation use_skip_connections padding
                  dropout_rate return_sequences use_separable (Some ''frontend''), [nb_hist, nb_filters]),
       (MaxPooling1D (2 ^ nat nb_pre_conv) (2 ^ nat nb_pre_conv), [nb_hist div 2 ^ nat nb_pre_conv, nb_filters]),
       (TCN nb_filters kernel_size nb_conv (default_dilations dilations) activation use_skip_connections padding
                  dropout_rate return_sequences use_separable None, [nb_hist div 2 ^ nat nb_pre_conv, nb_filters]),
       (Dense nb_classes, [nb_hist div 2 ^ nat nb_pre_conv, nb_classes]),
       (Activation ''softmax'', [nb_hist div 2 ^ nat nb_pre_conv, nb_classes])] @
      (if upsample then [(UpSampling1D (2 ^ nat nb_pre_conv), [nb_hist div 2 ^ nat nb_pre_conv * 2 ^ nat nb_pre_conv, nb_classes])] else [])"
    and "shape (m_outputs m) = snd (last (history (m_outputs m)))"
  using assms
  unfolding tcn_tcn_def Let_def
  by (auto simp: bindE_Inr_iff call_Inr_iff layer_iffs Input_tensor_def Model_def compile_def pool_steps split: if_splits)

lemma tcn_tcn_plain:
  fixes nb_freq nb_classes nb_hist nb_filters kernel_size nb_conv nb_pre_conv :: int
    and return_sequences :: bool and sample_weight_mode :: "string option"
    and learning_rate :: real and use_separable :: pyval
  assumes "tcn_tcn spec_backend nb_freq nb_classes nb_hist nb_filters kernel_size nb_conv loss dilations
     activation use_skip_connections return_sequences dropout_rate padding
     sample_weight_mode nb_pre_conv learning_rate upsample
     use_separable = Inr m" and "nb_pre_conv \<le> 0"
  shows "\<not> list_ex resamples (map fst (history (m_outputs m)))"
    and "return_sequences \<Longrightarrow> shape (m_outputs m) = [nb_hist, nb_classes]"
  using assms
  unfolding tcn_tcn_def Let_def
  by (auto simp: bindE_Inr_iff call_Inr_iff layer_iffs Input_tensor_def Model_def compile_def split: if_splits)

lemma tcn_stft_frontend:
  fixes nb_freq nb_classes nb_hist nb_filters kernel_size nb_conv nb_pre_conv pre_nb_dft
    nb_lstm_units :: int
    and return_sequences :: bool and sample_weight_mode :: "string option"
    and learning_rate :: real and use_separable :: pyval
  assumes "tcn_stft spec_backend nb_freq nb_classes nb_hist nb_filters kernel_size nb_conv loss dilations
     activation use_skip_connections return_sequences dropout_rate padding
     sample_weight_mode nb_pre_conv pre_nb_dft nb_lstm_units learning_rate upsample
     use_separable = Inr m" and "0 < nb_pre_conv"
  shows "take 3 (history (m_outputs m)) =
      [(Input [nb_hist, nb_freq], [nb_hist, nb_freq]),
       (Spectrogram pre_nb_dft (2 ^ nat nb_pre_conv),
          [(nb_hist + 2 ^ nat nb_pre_conv - 1) div 2 ^ nat nb_pre_conv, pre_nb_dft div 2 + 1, nb_freq]),
       (Reshape [(nb_hist + 2 ^ nat nb_pre_conv - 1) div 2 ^ nat nb_pre_conv, (pre_nb_dft div 2 + 1) * nb_freq],
          [(nb_hist + 2 ^ nat nb_pre_conv - 1) div 2 ^ nat nb_pre_conv, (pre_nb_dft div 2 + 1) * nb_freq])]"
    and "upsample \<Longrightarrow> \<exists>pre. history (m_outputs m) = pre @
        [(Activation ''softmax'', [(nb_hist + 2 ^ nat nb_pre_conv - 1) div 2 ^ nat nb_pre_conv, nb_classes]),
         (UpSampling1D (2 ^ nat nb_pre_conv),
           [(nb_hist + 2 ^ nat nb_pre_conv - 1) div 2 ^ nat nb_pre_conv * 2 ^ nat nb_pre_conv, nb_classes])]"
    and "upsample \<Longrightarrow> shape (m_outputs m) =
           [(nb_hist + 2 ^ nat nb_pre_conv - 1) div 2 ^ nat nb_pre_conv * 2 ^ nat nb_pre_conv, nb_classes]"
    and "\<not> upsample \<Longrightarrow> \<not> list_ex upsamples (map fst (history (m_outputs m)))"
  using assms
  unfolding tcn_stft_def Let_def
  by (auto simp: bindE_Inr_iff call_Inr_iff layer_iffs Input_tensor_def Model_def compile_def split: if_splits list.splits)

lemma tcn_stft_plain:
  fixes nb_freq nb_classes nb_hist nb_filters kernel_size nb_conv nb_pre_conv pre_nb_dft
    nb_lstm_units :: int
    and return_sequences :: bool and sample_weight_mode :: "string option"
    and learning_rate :: real and use_separable :: pyval
  assumes "tcn_stft spec_backend nb_freq nb_classes nb_hist nb_filters kernel_size nb_conv loss dilations
     activation use_skip_connections return_sequences dropout_rate padding
     sample_weight_mode nb_pre_conv pre_nb_dft nb_lstm_units learning_rate upsample
     use_separable = Inr m" and "nb_pre_conv \<le> 0"
  shows "\<not> list_ex resamples (map fst (history (m_outputs m)))"
    and "return_sequences \<Longrightarrow> shape (m_outputs m) = [nb_hist, nb_classes]"
  using assms
  unfolding tcn_stft_def Let_def
  by (auto simp: bindE_Inr_iff call_Inr_iff layer_iffs Input_tensor_def Model_def compile_def split: if_splits)


lemmas layer_defs = call_def output_shape_def spec_backend_def spec_TCN_shape_def
  spec_Spectrogram_shape_def Input_tensor_def Model_def compile_def Adam_def default_dilations_def Let_def

lemma call_Dense: "call B (Dense u) x = Inr y \<Longrightarrow> shape y \<noteq> [] \<and> last (shape y) = u"
  by (auto simp: call_Inr_iff Dense_iff)

lemma call_Activation: "call B (Activation a) x = Inr y \<Longrightarrow> shape y = shape x"
  by (auto simp: call_Inr_iff Activation_iff)

lemma call_UpSampling1D:
  "call B (UpSampling1D f) x = Inr y \<Longrightarrow> shape y \<noteq> [] \<and> last (shape y) = last (shape x)"
  by (auto simp: call_Inr_iff UpSampling1D_iff)

lemma tcn_stft_last:
  fixes nb_freq nb_classes nb_hist nb_filters kernel_size nb_conv nb_pre_conv pre_nb_dft
    nb_lstm_units :: int
    and return_sequences :: bool and sample_weight_mode :: "string option"
    and learning_rate :: real and use_separable :: pyval
  assumes "tcn_stft B nb_freq nb_classes nb_hist nb_filters kernel_size nb_conv loss dilations
     activation use_skip_connections return_sequences dropout_rate padding
     sample_weight_mode nb_pre_conv pre_nb_dft nb_lstm_units learning_rate upsample
     use_separable = Inr m"
  shows "shape (m_outputs m) \<noteq> [] \<and> last (shape (m_outputs m)) = nb_classes"
  using assms
  unfolding tcn_stft_def Let_def
  by (auto simp: bindE_Inr_iff Model_def compile_def split: if_splits dest!: call_Dense call_Activation call_UpSampling1D)

lemma tcn_tcn_last:
  fixes nb_freq nb_classes nb_hist nb_filters kernel_size nb_conv nb_pre_conv :: int
    and return_sequences :: bool and sample_weight_mode :: "string option"
    and learning_rate :: real and use_separable :: pyval
  assumes "tcn_tcn B nb_freq nb_classes nb_hist nb_filters kernel_size nb_conv loss dilations
     activation use_skip_connections return_sequences dropout_rate padding
     sample_weight_mode nb_pre_conv learning_rate upsample
     use_separable = Inr m"
  shows "shape (m_outputs m) \<noteq> [] \<and> last (shape (m_outputs m)) = nb_classes"
  using assms
  unfolding tcn_tcn_def Let_def
  by (auto simp: bindE_Inr_iff Model_def compile_def split: if_splits dest!: call_Dense call_Activation call_UpSampling1D)


text \<open>
  Claim C4.  For every model built by \<^verbatim>\<open>tcn_stft\<close> or \<^verbatim>\<open>tcn_tcn\<close>, the size of the last
  dimension of the model's output equals the declared \<^verbatim>\<open>nb_classes\<close>, for all values of
  \<^verbatim>\<open>nb_pre_conv\<close>, \<^verbatim>\<open>nb_lstm_units\<close> and \<^verbatim>\<open>upsample\<close>.  It holds whatever the TCN and
  spectrogram layers do to a shape: the dense layer sets the last dimension, and the
  softmax and the upsampling after it keep it.
\<close>

theorem output_classes:
  fixes nb_freq nb_classes nb_hist nb_filters kernel_size nb_conv nb_pre_conv pre_nb_dft
    nb_lstm_units :: int
    and return_sequences :: bool and sample_weight_mode :: "string option"
    and learning_rate :: real and use_separable :: pyval
  shows
    "(tcn_stft B nb_freq nb_classes nb_hist nb_filters kernel_size nb_conv loss dilations
        activation use_skip_connections return_sequences dropout_rate padding
        sample_weight_mode nb_pre_conv pre_nb_dft nb_lstm_units learning_rate upsample
        use_separable = Inr m
      \<longrightarrow> shape (m_outputs m) \<noteq> [] \<and> last (shape (m_outputs m)) = nb_classes) \<and>
     (tcn_tcn B nb_freq nb_classes nb_hist nb_filters kernel_size nb_conv loss dilations
        activation use_skip_connections return_sequences dropout_rate padding
        sample_weight_mode nb_pre_conv learning_rate upsample use_separable = Inr m
      \<longrightarrow> shape (m_outputs m) \<noteq> [] \<and> last (shape (m_outputs m)) = nb_classes)"
  by (rule conjI; rule impI; erule tcn_stft_last tcn_tcn_last)

theorem output_classes_witness:
  "(\<exists>m. tcn_stft spec_backend 1 2 1024 16 16 3 ''categorical_crossentropy'' None ''norm_relu''
          True True 0 ''same'' (Some ''temporal'') 4 64 8 0.0005 True (PBool False) = Inr m \<and>
        last (shape (m_outputs m)) = 2) \<and>
   (\<exists>m. tcn_tcn spec_backend 1 2 1024 16 16 3 ''categorical_crossentropy'' None ''norm_relu''
          True True 0 ''same'' (Some ''temporal'') 4 0.0005 True (PBool False) = Inr m \<and>
        last (shape (m_outputs m)) = 2)"
proof -
  obtain m1 where m1: "tcn_stft spec_backend 1 2 1024 16 16 3 ''categorical_crossentropy'' None
      ''norm_relu'' True True 0 ''same'' (Some ''temporal'') 4 64 8 0.0005 True (PBool False) = Inr m1"
    by (simp add: tcn_stft_def layer_defs)
  obtain m2 where m2: "tcn_tcn spec_backend 1 2 1024 16 16 3 ''categorical_crossentropy'' None
      ''norm_relu'' True True 0 ''same'' (Some ''temporal'') 4 0.0005 True (PBool False) = Inr m2"
    by (simp add: tcn_tcn_def layer_defs)
  from output_classes [THEN conjunct1, THEN mp, OF m1] output_classes [THEN conjunct2, THEN mp, OF m2] m1 m2
  show ?thesis by blast
qed


text \<open>
  Claim C5.  With \<^verbatim>\<open>nb_pre_conv > 0\<close> the frontend stage decreases the sequence length by
  the factor \<^verbatim>\<open>2**nb_pre_conv\<close>, and with \<^verbatim>\<open>upsample=True\<close> the final upsampling stage
  increases it by the same factor; with \<^verbatim>\<open>nb_pre_conv = 0\<close> (or less) no frontend and no
  upsampling stage is added and the sequence length is unchanged.  Lengths are whole numbers
  of steps: the STFT frontend returns \<open>nb_hist\<close> divided by the factor and rounded up, the
  max-pooling frontend \<open>nb_hist\<close> divided by the factor and rounded down, and the upsampling
  multiplies that number by the factor.  The model states it by the layers the built model
  went through, each with the shape it returned.
\<close>

theorem resampling_factor:
  fixes nb_freq nb_classes nb_hist nb_filters kernel_size nb_conv nb_pre_conv pre_nb_dft
    nb_lstm_units :: int
    and return_sequences :: bool and sample_weight_mode :: "string option"
    and learning_rate :: real and use_separable :: pyval
  defines "f \<equiv> 2 ^ nat nb_pre_conv"
  shows
    "(tcn_stft spec_backend nb_freq nb_classes nb_hist nb_filters kernel_size nb_conv loss
        dilations activation use_skip_connections return_sequences dropout_rate padding
        sample_weight_mode nb_pre_conv pre_nb_dft nb_lstm_units learning_rate upsample
        use_separable = Inr m
      \<longrightarrow>
        (0 < nb_pre_conv \<longrightarrow>
           take 3 (history (m_outputs m)) =
             [(Input [nb_hist, nb_freq], [nb_hist, nb_freq]),
              (Spectrogram pre_nb_dft f,
                 [(nb_hist + f - 1) div f, pre_nb_dft div 2 + 1, nb_freq]),
              (Reshape [(nb_hist + f - 1) div f, (pre_nb_dft div 2 + 1) * nb_freq],
                 [(nb_hist + f - 1) div f, (pre_nb_dft div 2 + 1) * nb_freq])]) \<and>
        (0 < nb_pre_conv \<and> upsample \<longrightarrow>
           (\<exists>pre. history (m_outputs m) = pre @
              [(Activation ''softmax'', [(nb_hist + f - 1) div f, nb_classes]),
               (UpSampling1D f, [(nb_hist + f - 1) div f * f, nb_classes])]) \<and>
           shape (m_outputs m) = [(nb_hist + f - 1) div f * f, nb_classes]) \<and>
        (0 < nb_pre_conv \<and> \<not> upsample \<longrightarrow>
           \<not> list_ex upsamples (map fst (history (m_outputs m)))) \<and>
        (nb_pre_conv \<le> 0 \<longrightarrow>
           \<not> list_ex resamples (map fst (history (m_outputs m))) \<and>
           (return_sequences \<longrightarrow> shape (m_outputs m) = [nb_hist, nb_classes]))) \<and>
     (tcn_tcn spec_backend nb_freq nb_classes nb_hist nb_filters kernel_size nb_conv loss
        dilations activation use_skip_connections return_sequences dropout_rate padding
        sample_weight_mode nb_pre_conv learning_rate upsample use_separable = Inr m
      \<longrightarrow>
        (0 < nb_pre_conv \<longrightarrow>
           take 3 (history (m_outputs m)) =
             [(Input [nb_hist, nb_freq], [nb_hist, nb_freq]),
              (TCN nb_filters kernel_size nb_pre_conv (default_dilations dilations) activation
                 use_skip_connections padding dropout_rate return_sequences use_separable
                 (Some ''frontend''),
               [nb_hist, nb_filters]),
              (MaxPooling1D f f, [nb_hist div f, nb_filters])]) \<and>
        (0 < nb_pre_conv \<and> upsample \<longrightarrow>
           (\<exists>pre. history (m_outputs m) = pre @
              [(Activation ''softmax'', [nb_hist div f, nb_classes]),
               (UpSampling1D f, [nb_hist div f * f, nb_classes])]) \<and>
           shape (m_outputs m) = [nb_hist div f * f, nb_classes]) \<and>
        (0 < nb_pre_conv \<and> \<not> upsample \<longrightarrow>
           \<not> list_ex upsamples (map fst (history (m_outputs m)))) \<and>
        (nb_pre_conv \<le> 0 \<longrightarrow>
           \<not> list_ex resamples (map fst (history (m_outputs m))) \<and>
           (return_sequences \<longrightarrow> shape (m_outputs m) = [nb_hist, nb_classes])))"
    (is "(?stft \<longrightarrow> ?S) \<and> (?tcn \<longrightarrow> ?T)")
proof (rule conjI; rule impI)
  assume b: ?stft
  show ?S
    unfolding f_def
    using tcn_stft_frontend [OF b] tcn_stft_plain [OF b] by blast
next
  assume b: ?tcn
  have h: "0 < nb_pre_conv \<Longrightarrow> take 3 (history (m_outputs m)) =
             [(Input [nb_hist, nb_freq], [nb_hist, nb_freq]),
              (TCN nb_filters kernel_size nb_pre_conv (default_dilations dilations) activation
                 use_skip_connections padding dropout_rate return_sequences use_separable
                 (Some ''frontend''),
               [nb_hist, nb_filters]),
              (MaxPooling1D f f, [nb_hist div f, nb_filters])]"
    unfolding f_def by (simp add: tcn_tcn_history(1) [OF b])
  have u: "0 < nb_pre_conv \<Longrightarrow> upsample \<Longrightarrow>
           (\<exists>pre. history (m_outputs m) = pre @
              [(Activation ''softmax'', [nb_hist div f, nb_classes]),
               (UpSampling1D f, [nb_hist div f * f, nb_classes])]) \<and>
           shape (m_outputs m) = [nb_hist div f * f, nb_classes]"
    unfolding f_def by (simp add: tcn_tcn_history [OF b])
  have n: "0 < nb_pre_conv \<Longrightarrow> \<not> upsample \<Longrightarrow>
           \<not> list_ex upsamples (map fst (history (m_outputs m)))"
    by (simp add: tcn_tcn_history(1) [OF b])
  show ?T
    using h u n tcn_tcn_plain [OF b] by blast
qed

theorem resampling_factor_witness:
  "(\<exists>m. tcn_stft spec_backend 1 2 1000 16 16 3 ''categorical_crossentropy'' None ''norm_relu''
          True True 0 ''same'' (Some ''temporal'') 4 64 0 0.0005 True (PBool False) = Inr m \<and>
        shape (m_outputs m) = [1008, 2]) \<and>
   (\<exists>m. tcn_tcn spec_backend 1 2 1000 16 16 3 ''categorical_crossentropy'' None ''norm_relu''
          True True 0 ''same'' (Some ''temporal'') 4 0.0005 True (PBool False) = Inr m \<and>
        shape (m_outputs m) = [992, 2])"
proof -
  obtain m1 where m1: "tcn_stft spec_backend 1 2 1000 16 16 3 ''categorical_crossentropy'' None
      ''norm_relu'' True True 0 ''same'' (Some ''temporal'') 4 64 0 0.0005 True (PBool False) = Inr m1"
    by (simp add: tcn_stft_def layer_defs)
  obtain m2 where m2: "tcn_tcn spec_backend 1 2 1000 16 16 3 ''categorical_crossentropy'' None
      ''norm_relu'' True True 0 ''same'' (Some ''temporal'') 4 0.0005 True (PBool False) = Inr m2"
    by (simp add: tcn_tcn_def layer_defs)
  have "shape (m_outputs m1) = [1008, 2]"
    using resampling_factor [THEN conjunct1, THEN mp, OF m1] by simp
  moreover have "shape (m_outputs m2) = [992, 2]"
    using resampling_factor [THEN conjunct2, THEN mp, OF m2] by simp
  ultimately show ?thesis using m1 m2 by blast
qed

subsection \<open>The registry\<close>

lemma model_dict_eq:
  "model_dict B =
     [''tcn'' \<mapsto> def_tcn B, ''tcn_stft'' \<mapsto> def_tcn_stft B, ''tcn_tcn'' \<mapsto> def_tcn_tcn B]"
  by (simp add: model_dict_def register_as_model_def def_tcn_def def_tcn_stft_def
      def_tcn_tcn_def)

text \<open>
  Claim C9.  The registered builder \<^verbatim>\<open>tcn\<close> is extensionally equal to \<^verbatim>\<open>tcn_stft\<close>: for every
  argument list, \<^verbatim>\<open>tcn(*args, **kwargs)\<close> returns exactly the result of
  \<^verbatim>\<open>tcn_stft(*args, **kwargs)\<close>, so the registry entries \<^verbatim>\<open>'tcn'\<close> and \<^verbatim>\<open>'tcn_stft'\<close> build
  identical models for identical parameters (and fail alike).
\<close>

theorem tcn_synonym:
  "tcn B args kwargs = call_tcn_stft B args kwargs \<and>
   (\<exists>f g. model_dict B ''tcn'' = Some f \<and> model_dict B ''tcn_stft'' = Some g \<and>
      func_name f = ''tcn'' \<and> func_name g = ''tcn_stft'' \<and>
      func_call f args kwargs = func_call g args kwargs)"
  by (simp add: model_dict_eq def_tcn_def def_tcn_stft_def tcn_def)

theorem tcn_synonym_witness:
  "\<exists>m. tcn spec_backend [PInt 1, PInt 2] [''nb_hist'' \<mapsto> PInt 1024] = Inr m \<and>
       call_tcn_stft spec_backend [PInt 1, PInt 2] [''nb_hist'' \<mapsto> PInt 1024] = Inr m"
proof -
  obtain m where m: "call_tcn_stft spec_backend [PInt 1, PInt 2] [''nb_hist'' \<mapsto> PInt 1024] = Inr m"
    by (simp add: call_tcn_stft_def tcn_stft_signature_def arg_def tcn_stft_def layer_defs)
  with tcn_synonym [of spec_backend "[PInt 1, PInt 2]" "[''nb_hist'' \<mapsto> PInt 1024]"]
  show ?thesis by simp
qed

section \<open>Properties of \<^verbatim>\<open>train\<close>\<close>

subsection \<open>Which exceptions a run can raise\<close>

lemmas run_defs = bindR_def ret_def raise_def emit_def lift_def lib_def ext_def ext_unit_def

lemma bindR_Inr_iff:
  "bindR m f t = (Inr y, t') \<longleftrightarrow> (\<exists>x t1. m t = (Inr x, t1) \<and> f x t1 = (Inr y, t'))"
  by (cases "m t") (auto simp: bindR_def split: sum.splits)

lemma bindR_Inl_iff:
  "bindR m f t = (Inl e, t') \<longleftrightarrow>
     m t = (Inl e, t') \<or> (\<exists>x t1. m t = (Inr x, t1) \<and> f x t1 = (Inl e, t'))"
  by (cases "m t") (auto simp: bindR_def split: sum.splits)

lemma nve_bindR: "no_ValueError m \<Longrightarrow> (\<And>x. no_ValueError (f x)) \<Longrightarrow> no_ValueError (bindR m f)"
  unfolding no_ValueError_def bindR_Inl_iff by blast

lemma nve_prims:
  "no_ValueError (ret x)" "no_ValueError (emit ev)" "no_ValueError (lib r)"
  "no_ValueError (ext ev r)" "no_ValueError (ext_unit ev z)"
  by (auto simp: no_ValueError_def ret_def emit_def lib_def ext_def ext_unit_def foreign_def
      split: sum.splits option.splits)

lemma nve_lift: "no_ValueError_result r \<Longrightarrow> no_ValueError (lift r)"
  by (auto simp: no_ValueError_def no_ValueError_result_def lift_def)

lemma nve_raise: "\<not> is_ValueError e \<Longrightarrow> no_ValueError (raise e)"
  by (auto simp: no_ValueError_def raise_def)

lemma nver_dim: "no_ValueError_result (dim s i)"
  by (auto simp: no_ValueError_result_def dim_def)

lemma nver_py_len: "no_ValueError_result (py_len v)"
  by (cases v) (auto simp: no_ValueError_result_def)

lemma nver_simps [simp]: "no_ValueError_result (Inr x)" "no_ValueError_result (Inl e) = (\<not> is_ValueError e)"
  "no_ValueError_result (foreign r)"
  by (auto simp: no_ValueError_result_def foreign_def split: sum.splits)

lemma nver_bindE: "no_ValueError_result m \<Longrightarrow> (\<And>x. no_ValueError_result (f x)) \<Longrightarrow> no_ValueError_result (bindE m f)"
  by (cases m) (auto simp: no_ValueError_result_def)

lemmas nve_intros = nve_bindR nve_prims nve_lift nve_raise nver_dim nver_py_len

lemma nve_load_data: "no_ValueError (load_data E a p)"
  unfolding load_data_def load_dataset_def select_samples_def describe_data_def
    make_generators_def class_weights_def Let_def
  by (auto intro!: nve_intros split: option.splits prod.splits)

lemma nve_setup_neptune: "no_ValueError (setup_neptune E a p cbs)"
  unfolding setup_neptune_def Let_def
  by (auto intro!: nve_intros split: option.splits)

lemma nve_prepare: "no_ValueError (prepare_outputs E a p sp)"
  unfolding prepare_outputs_def Let_def
  by (auto intro!: nve_intros nve_setup_neptune split: prod.splits)

lemma nve_load_weights: "no_ValueError (load_weights m path)"
  by (auto simp: no_ValueError_def load_weights_def ext_def foreign_def split: sum.splits option.splits)

lemma nve_final: "no_ValueError (final_evaluation E a d p m h sn cn pos)"
  unfolding final_evaluation_def Let_def
  by (auto intro!: nve_intros nve_load_weights split: option.splits prod.splits)

lemma nver_call: "no_ValueError_result (call B l x)"
  unfolding call_def by (intro nver_bindE) simp_all

lemma nver_tcn_stft:
  fixes nb_freq nb_classes nb_hist nb_filters kernel_size nb_conv nb_pre_conv pre_nb_dft
    nb_lstm_units :: int
    and return_sequences :: bool and sample_weight_mode :: "string option"
    and learning_rate :: real and use_separable :: pyval
  shows "no_ValueError_result (tcn_stft B nb_freq nb_classes nb_hist nb_filters kernel_size nb_conv loss dilations
     activation use_skip_connections return_sequences dropout_rate padding
     sample_weight_mode nb_pre_conv pre_nb_dft nb_lstm_units learning_rate upsample
     use_separable)"
  unfolding tcn_stft_def Let_def
  by (auto intro!: nver_bindE nver_call split: list.splits)

lemma nver_tcn_tcn:
  fixes nb_freq nb_classes nb_hist nb_filters kernel_size nb_conv nb_pre_conv :: int
    and return_sequences :: bool and sample_weight_mode :: "string option"
    and learning_rate :: real and use_separable :: pyval
  shows "no_ValueError_result (tcn_tcn B nb_freq nb_classes nb_hist nb_filters kernel_size nb_conv loss dilations
     activation use_skip_connections return_sequences dropout_rate padding
     sample_weight_mode nb_pre_conv learning_rate upsample
     use_separable)"
  unfolding tcn_tcn_def Let_def
  by (auto intro!: nver_bindE nver_call split: list.splits)

lemma nver_bind_params: "no_ValueError_result (bind_params sig args kw)"
  by (induction sig args kw rule: bind_params.induct)
     (auto intro!: nver_bindE split: option.splits)

lemma nver_call_tcn_stft: "no_ValueError_result (call_tcn_stft B args kw)"
  unfolding call_tcn_stft_def
  by (auto intro!: nver_bindE nver_bind_params nver_tcn_stft simp: arg_def split: option.splits Option.bind_splits)

lemma nver_call_tcn_tcn: "no_ValueError_result (call_tcn_tcn B args kw)"
  unfolding call_tcn_tcn_def
  by (auto intro!: nver_bindE nver_bind_params nver_tcn_tcn simp: arg_def split: option.splits Option.bind_splits)

lemma nve_build_network: "no_ValueError (build_network E a p)"
  unfolding build_network_def
  by (auto intro!: nve_lift nver_call_tcn_stft nver_call_tcn_tcn
      simp: model_dict_eq def_tcn_def def_tcn_stft_def def_tcn_tcn_def tcn_def split: option.splits if_splits)

lemma nve_on_epoch_end: "no_ValueError (on_epoch_end E i v c s)"
  by (cases c) (auto intro!: nve_intros simp: Let_def)

lemma nve_callbacks: "no_ValueError (callbacks_on_epoch_end E i v cs s)"
  by (induction cs arbitrary: s) (auto intro!: nve_intros nve_on_epoch_end)

lemma nve_fit_loop: "no_ValueError (fit_loop E cbs n i s)"
  by (induction n arbitrary: i s) (auto intro!: nve_intros nve_callbacks)

lemma nve_fit: "no_ValueError (fit E m n cbs)"
  unfolding fit_def by (auto intro!: nve_intros nve_fit_loop)

lemma nve_configure: "0 < stride (first_locals a) \<Longrightarrow> no_ValueError (configure a)"
  unfolding configure_def Let_def
  by (auto intro!: nve_intros)

lemma nve_train: "0 < stride (first_locals a) \<Longrightarrow> no_ValueError (train E a)"
  unfolding train_def build_def
  by (auto intro!: nve_bindR nve_prims nve_configure nve_load_data nve_build_network nve_prepare nve_fit nve_final)

lemma configure_raises:
  "stride (first_locals a) \<le> 0 \<Longrightarrow>
   configure a t = (Inl (ValueError stride_message), t @ (if log_messages a then [Basic_config] else []))"
  by (simp add: configure_def Let_def run_defs)

lemma train_raises:
  "stride (first_locals a) \<le> 0 \<Longrightarrow>
   train E a t = (Inl (ValueError stride_message), t @ (if log_messages a then [Basic_config] else []))"
  by (simp add: train_def build_def bindR_def configure_raises)

lemma stride_with_y_hist:
  "with_y_hist a \<Longrightarrow> ignore_boundaries a \<Longrightarrow>
   stride (first_locals a) = nb_hist a - 2 * \<lceil>real_of_int (kernel_size a * nb_conv a)\<rceil>"
  by (simp add: first_locals_def Let_def np_ceil_def)

text \<open>
  Claim C1.  For every call to \<^verbatim>\<open>train\<close> with \<^verbatim>\<open>with_y_hist=True\<close> and
  \<^verbatim>\<open>ignore_boundaries=True\<close>, the computed stride equals
  \<^verbatim>\<open>nb_hist - 2*ceil(kernel_size * nb_conv)\<close>, and \<^verbatim>\<open>train\<close> raises a \<^verbatim>\<open>ValueError\<close> describing
  remediation if and only if this stride is \<^verbatim>\<open><= 0\<close>; when it raises, it does so before any
  data is loaded or any output file is written.  No other statement of the two files raises
  a \<^verbatim>\<open>ValueError\<close>, and what the libraries raise is not this exception.
\<close>

theorem stride_validation:
  assumes "with_y_hist a" and "ignore_boundaries a"
  shows "stride (first_locals a) = nb_hist a - 2 * \<lceil>real_of_int (kernel_size a * nb_conv a)\<rceil> \<and>
    ((\<exists>msg. fst (train E a t) = Inl (ValueError msg)) \<longleftrightarrow> stride (first_locals a) \<le> 0) \<and>
    (stride (first_locals a) \<le> 0 \<longrightarrow>
       fst (train E a t) = Inl (ValueError stride_message) \<and>
       \<not> list_ex loads_data (snd (train E a [])) \<and>
       \<not> list_ex writes_output (snd (train E a [])))"
proof (intro conjI)
  show "stride (first_locals a) = nb_hist a - 2 * \<lceil>real_of_int (kernel_size a * nb_conv a)\<rceil>"
    using assms by (rule stride_with_y_hist)
  show "(\<exists>msg. fst (train E a t) = Inl (ValueError msg)) \<longleftrightarrow> stride (first_locals a) \<le> 0"
  proof
    assume "\<exists>msg. fst (train E a t) = Inl (ValueError msg)"
    then obtain msg t' where r: "train E a t = (Inl (ValueError msg), t')"
      by (cases "train E a t") auto
    show "stride (first_locals a) \<le> 0"
    proof (rule ccontr)
      assume "\<not> stride (first_locals a) \<le> 0"
      then have "no_ValueError (train E a)" by (simp add: nve_train)
      with r have "\<not> is_ValueError (ValueError msg)"
        unfolding no_ValueError_def by blast
      then show False by simp
    qed
  next
    assume "stride (first_locals a) \<le> 0"
    then show "\<exists>msg. fst (train E a t) = Inl (ValueError msg)"
      by (simp add: train_raises)
  qed
  show "stride (first_locals a) \<le> 0 \<longrightarrow>
           fst (train E a t) = Inl (ValueError stride_message) \<and>
           \<not> list_ex loads_data (snd (train E a [])) \<and>
           \<not> list_ex writes_output (snd (train E a []))"
    by (simp add: train_raises)
qed

theorem stride_validation_witness:
  "stride (first_locals (demo_args\<lparr>nb_hist := 96\<rparr>)) = 0 \<and>
   fst (train demo_env (demo_args\<lparr>nb_hist := 96\<rparr>) []) = Inl (ValueError stride_message) \<and>
   snd (train demo_env (demo_args\<lparr>nb_hist := 96\<rparr>) []) = [] \<and>
   stride (first_locals demo_args) = 928 \<and>
   fst (train demo_env demo_args []) \<noteq> Inl (ValueError stride_message)"
proof -
  have h: "with_y_hist (demo_args\<lparr>nb_hist := 96\<rparr>)" "ignore_boundaries (demo_args\<lparr>nb_hist := 96\<rparr>)"
    "with_y_hist demo_args" "ignore_boundaries demo_args"
    by (simp_all add: demo_args_def)
  have s: "stride (first_locals (demo_args\<lparr>nb_hist := 96\<rparr>)) = 0" "stride (first_locals demo_args) = 928"
    by (simp_all add: demo_args_def first_locals_def np_ceil_def)
  have t: "snd (train demo_env (demo_args\<lparr>nb_hist := 96\<rparr>) []) = []"
    using s by (simp add: train_raises demo_args_def)
  from stride_validation [OF h(1,2), of demo_env "[]"] stride_validation [OF h(3,4), of demo_env "[]"] s t
  show ?thesis by auto
qed

text \<open>
  Claim C8.  For every call to \<^verbatim>\<open>train\<close> with \<^verbatim>\<open>with_y_hist=False\<close>, the stride is set to the
  constant 1, so the \<^verbatim>\<open>ValueError\<close> branch guarding \<^verbatim>\<open>stride <= 0\<close> is unreachable regardless
  of \<^verbatim>\<open>kernel_size\<close>, \<^verbatim>\<open>nb_conv\<close>, \<^verbatim>\<open>nb_hist\<close> or \<^verbatim>\<open>ignore_boundaries\<close>.
\<close>

theorem classification_stride:
  assumes "\<not> with_y_hist a"
  shows "stride (first_locals a) = 1 \<and> (\<forall>msg. fst (train E a t) \<noteq> Inl (ValueError msg))"
proof
  show s: "stride (first_locals a) = 1"
    using assms by (simp add: first_locals_def Let_def)
  then have "no_ValueError (train E a)" by (simp add: nve_train)
  then show "\<forall>msg. fst (train E a t) \<noteq> Inl (ValueError msg)"
    unfolding no_ValueError_def
    by (metis is_ValueError.simps(1) prod.collapse)
qed

theorem classification_stride_witness:
  "stride (first_locals (demo_args\<lparr>with_y_hist := False, nb_hist := 1, kernel_size := 100\<rparr>)) = 1 \<and>
   fst (train demo_env (demo_args\<lparr>with_y_hist := False, nb_hist := 1, kernel_size := 100\<rparr>) [])
     \<noteq> Inl (ValueError stride_message)"
proof -
  have "\<not> with_y_hist (demo_args\<lparr>with_y_hist := False, nb_hist := 1, kernel_size := 100\<rparr>)"
    by simp
  from classification_stride [OF this, of demo_env "[]"] show ?thesis by simp
qed


subsection \<open>Selecting the builder\<close>

lemma bindR_fails_right: "(\<And>x t1. isl (fst (f x t1))) \<Longrightarrow> isl (fst (bindR m f t))"
  by (cases "m t") (auto simp: bindR_def split: sum.splits)

lemma bindR_fails_left: "isl (fst (m t)) \<Longrightarrow> isl (fst (bindR m f t))"
  by (cases "m t") (auto simp: bindR_def split: sum.splits)

lemma build_network_eq:
  "build_network E a params t =
     (case model_dict (layers E) (model_name a) of
        None \<Rightarrow> (Inl (KeyError (model_name a)), t)
      | Some func \<Rightarrow> (func_call func [] params, t))"
  by (simp add: build_network_def lift_def split: option.splits)

lemma unregistered_build:
  assumes "model_dict (layers E) (model_name a) = None"
  shows "isl (fst (build E a t))"
  unfolding build_def
proof (rule bindR_fails_right)
  fix x :: "pydict \<times> string" and t1
  obtain params sp where x: "x = (params, sp)" by (cases x)
  have "isl (fst (bindR (load_data E a params)
           (\<lambda>(d, params, data_gen, val_gen).
              bindR (build_network E a params)
                (\<lambda>model. ret (sp, d, params, data_gen, val_gen, model))) t1))"
  proof (rule bindR_fails_right)
    fix y :: "dataset \<times> pydict \<times> generator \<times> generator" and t2
    obtain d p dg vg where y: "y = (d, p, dg, vg)" by (cases y)
    have "isl (fst (build_network E a p t2))"
      by (simp add: build_network_eq assms)
    then show "isl (fst ((case y of (d, params, data_gen, val_gen) \<Rightarrow>
              bindR (build_network E a params)
                (\<lambda>model. ret (sp, d, params, data_gen, val_gen, model))) t2))"
      unfolding y by (simp add: bindR_fails_left)
  qed
  then show "isl (fst ((case x of (params, save_prefix') \<Rightarrow>
         bindR (load_data E a params)
           (\<lambda>(d, params, data_gen, val_gen).
              bindR (build_network E a params)
                (\<lambda>model. ret (save_prefix', d, params, data_gen, val_gen, model)))) t1))"
    unfolding x by simp
qed

lemma unregistered_train:
  assumes "model_dict (layers E) (model_name a) = None"
  shows "isl (fst (train E a t))"
  unfolding train_def
  by (intro bindR_fails_left unregistered_build assms)

lemma model_dict_dom: "dom (model_dict B) = {''tcn'', ''tcn_stft'', ''tcn_tcn''}"
  by (auto simp: model_dict_eq)

text \<open>
  Claim C6.  Model construction is selected by name from a registry: the
  \<^verbatim>\<open>_register_as_model\<close> decorator maps each builder function's name to the function in
  \<^verbatim>\<open>model_dict\<close>, and for every \<^verbatim>\<open>model_name\<close> \<^verbatim>\<open>train\<close> builds the network by calling
  \<^verbatim>\<open>model_dict[model_name](**params)\<close>, so a \<^verbatim>\<open>model_name\<close> not in the registry fails (with a
  \<^verbatim>\<open>KeyError\<close> at line 248, if nothing has failed before) and a registered one invokes exactly
  the builder of that name.
\<close>

theorem registry:
  "register_as_model func d = (d(func_name func \<mapsto> func), func) \<and>
   dom (model_dict B) = {''tcn'', ''tcn_stft'', ''tcn_tcn''} \<and>
   (\<exists>f1 f2 f3.
      model_dict B ''tcn'' = Some f1 \<and> func_name f1 = ''tcn'' \<and> func_call f1 = tcn B \<and>
      model_dict B ''tcn_stft'' = Some f2 \<and> func_name f2 = ''tcn_stft'' \<and>
        func_call f2 = call_tcn_stft B \<and>
      model_dict B ''tcn_tcn'' = Some f3 \<and> func_name f3 = ''tcn_tcn'' \<and>
        func_call f3 = call_tcn_tcn B) \<and>
   (model_name a = ''tcn'' \<longrightarrow>
      build_network E a params t = (tcn (layers E) [] params, t)) \<and>
   (model_name a = ''tcn_stft'' \<longrightarrow>
      build_network E a params t = (call_tcn_stft (layers E) [] params, t)) \<and>
   (model_name a = ''tcn_tcn'' \<longrightarrow>
      build_network E a params t = (call_tcn_tcn (layers E) [] params, t)) \<and>
   (model_name a \<notin> dom (model_dict (layers E)) \<longrightarrow>
      build_network E a params t = (Inl (KeyError (model_name a)), t) \<and>
      isl (fst (train E a t)))"
proof -
  have "model_name a \<notin> dom (model_dict (layers E)) \<Longrightarrow> isl (fst (train E a t))"
    by (rule unregistered_train) auto
  moreover have "model_name a \<notin> dom (model_dict (layers E)) \<Longrightarrow>
      build_network E a params t = (Inl (KeyError (model_name a)), t)"
    by (auto simp: build_network_eq split: option.splits)
  moreover have "dom (model_dict B) = {''tcn'', ''tcn_stft'', ''tcn_tcn''}"
    by (rule model_dict_dom)
  ultimately show ?thesis
    by (simp add: register_as_model_def build_network_eq model_dict_eq def_tcn_def def_tcn_stft_def def_tcn_tcn_def)
qed

theorem registry_witness:
  "build_network demo_env (demo_args\<lparr>model_name := ''tcn_tcn''\<rparr>)
      [''nb_freq'' \<mapsto> PInt 1, ''nb_classes'' \<mapsto> PInt 2] [] =
     (call_tcn_tcn spec_backend [] [''nb_freq'' \<mapsto> PInt 1, ''nb_classes'' \<mapsto> PInt 2], []) \<and>
   build_network demo_env (demo_args\<lparr>model_name := ''cnn''\<rparr>) Map.empty [] =
     (Inl (KeyError ''cnn''), []) \<and>
   isl (fst (train demo_env (demo_args\<lparr>model_name := ''cnn''\<rparr>) []))"
proof -
  have 1: "model_name (demo_args\<lparr>model_name := ''tcn_tcn''\<rparr>) = ''tcn_tcn''" by simp
  have 2: "model_name (demo_args\<lparr>model_name := ''cnn''\<rparr>) \<notin> dom (model_dict (layers demo_env))"
    by (simp add: model_dict_dom)
  have 3: "layers demo_env = spec_backend" by (simp add: demo_env_def demo_world_def)
  from registry [of _ _ _ "demo_args\<lparr>model_name := ''tcn_tcn''\<rparr>" demo_env
      "[''nb_freq'' \<mapsto> PInt 1, ''nb_classes'' \<mapsto> PInt 2]" "[]"] 1 3
  have a: "build_network demo_env (demo_args\<lparr>model_name := ''tcn_tcn''\<rparr>)
      [''nb_freq'' \<mapsto> PInt 1, ''nb_classes'' \<mapsto> PInt 2] [] =
     (call_tcn_tcn spec_backend [] [''nb_freq'' \<mapsto> PInt 1, ''nb_classes'' \<mapsto> PInt 2], [])"
    by simp
  from registry [of _ _ _ "demo_args\<lparr>model_name := ''cnn''\<rparr>" demo_env Map.empty "[]"] 2
  have b: "build_network demo_env (demo_args\<lparr>model_name := ''cnn''\<rparr>) Map.empty [] =
     (Inl (KeyError ''cnn''), []) \<and>
   isl (fst (train demo_env (demo_args\<lparr>model_name := ''cnn''\<rparr>) []))"
    by simp
  from a b show ?thesis by simp
qed


subsection \<open>The learning rate\<close>

lemma locals_dict_learning_rate:
  "locals_dict a l os sp ''learning_rate'' = Some (optional PFloat (learning_rate a))"
  by (simp add: locals_dict_def)

lemma configure_eq:
  "configure a t =
     (if stride (first_locals a) \<le> 0
      then (Inl (ValueError stride_message), t @ (if log_messages a then [Basic_config] else []))
      else (Inr (let params = (locals_dict a (first_locals a) 1 (adjusted_prefix a))(''_qt_progress'' := None);
                     params = (if params ''learning_rate'' = Some PNone
                               then params(''learning_rate'' := None) else params)
                 in if contains ''_multi'' (model_name a)
                     then params(''unpack_channels'' \<mapsto> PBool True) else params, adjusted_prefix a),
            t @ (if log_messages a then [Basic_config] else [])))"
  by (simp add: configure_def Let_def run_defs)

lemma configure_Inr:
  assumes "configure a t = (Inr (p, sp), t')"
  shows "p ''learning_rate'' = map_option PFloat (learning_rate a)"
    and "sp = adjusted_prefix a"
    and "t' = t @ (if log_messages a then [Basic_config] else [])"
    and "0 < stride (first_locals a)"
proof -
  from assms have s: "0 < stride (first_locals a)"
    by (simp add: configure_eq split: if_splits)
  then show "0 < stride (first_locals a)" .
  from assms s show "sp = adjusted_prefix a" "t' = t @ (if log_messages a then [Basic_config] else [])"
    by (auto simp add: configure_eq)
  from assms s have p: "p = (let params = (locals_dict a (first_locals a) 1 (adjusted_prefix a))(''_qt_progress'' := None);
                     params = (if params ''learning_rate'' = Some PNone
                               then params(''learning_rate'' := None) else params)
                 in if contains ''_multi'' (model_name a)
                     then params(''unpack_channels'' \<mapsto> PBool True) else params)"
    by (auto simp add: configure_eq)
  show "p ''learning_rate'' = map_option PFloat (learning_rate a)"
    unfolding p by (cases "learning_rate a") (simp_all add: Let_def locals_dict_learning_rate)
qed




lemma load_dataset_Inr:
  assumes "load_dataset E a p t = (Inr (d, p'), t')" and "k \<noteq> ''data_hash''"
  shows "p' k = (p ++ attrs d) k"
  using assms unfolding load_dataset_def Let_def
  by (auto simp: bindR_Inr_iff ret_def ext_def split: if_splits)

lemma describe_data_Inr:
  assumes "describe_data d p ft lt fv lv t = (Inr p', t')"
    and "k \<notin> {''nb_freq'', ''nb_channels'', ''nb_classes'', ''first_sample_train'',
            ''last_sample_train'', ''first_sample_val'', ''last_sample_val''}"
  shows "p' k = p k"
  using assms unfolding describe_data_def
  by (auto simp: bindR_Inr_iff ret_def lift_def)

lemma class_weights_Inr:
  assumes "class_weights E a d p t = (Inr p', t')" and "k \<noteq> ''class_weights''"
  shows "p' k = p k"
  using assms unfolding class_weights_def Let_def
  by (auto simp: bindR_Inr_iff ret_def lib_def split: if_splits)

lemma load_data_Inr:
  assumes "load_data E a p t = (Inr (d, p', dg, vg), t')"
    and "k \<notin> {''data_hash'', ''nb_freq'', ''nb_channels'', ''nb_classes'', ''first_sample_train'',
            ''last_sample_train'', ''first_sample_val'', ''last_sample_val'', ''class_weights''}"
  shows "p' k = (p ++ attrs d) k"
proof -
  from assms(1) obtain p1 p2 ft lt fv lv t1 t2 t3 t4
    where 1: "load_dataset E a p t = (Inr (d, p1), t1)"
      and 2: "describe_data d p1 ft lt fv lv t2 = (Inr p2, t3)"
      and 3: "class_weights E a d p2 t4 = (Inr p', t')"
    unfolding load_data_def
    by (auto simp: bindR_Inr_iff ret_def split: prod.splits)
  from assms(2) have "p' k = p2 k" by (intro class_weights_Inr [OF 3]) simp
  also from assms(2) have "p2 k = p1 k" by (intro describe_data_Inr [OF 2]) simp
  also from assms(2) have "p1 k = (p ++ attrs d) k" by (intro load_dataset_Inr [OF 1]) simp
  finally show ?thesis .
qed


lemma bind_params_lookup:
  assumes "bind_params sig [] kw = Inr b" and "distinct (map fst sig)" and "(n, d) \<in> set sig"
  shows "b n = (case kw n of Some v \<Rightarrow> Some v | None \<Rightarrow> d)"
  using assms
proof (induction sig arbitrary: b)
  case Nil
  then show ?case by simp
next
  case (Cons p sig)
  obtain n0 d0 where p: "p = (n0, d0)" by (cases p)
  from Cons.prems(1) obtain b' v0 where b': "bind_params sig [] kw = Inr b'"
    and b: "b = b'(n0 \<mapsto> v0)" and v0: "(case kw n0 of Some v \<Rightarrow> Some v | None \<Rightarrow> d0) = Some v0"
    unfolding p by (auto simp: bindE_Inr_iff split: option.splits)
  show ?case
  proof (cases "n = n0")
    case True
    with Cons.prems(2,3) p have "d = d0" by (auto simp: rev_image_eqI)
    with True b v0 show ?thesis by (auto split: option.splits)
  next
    case False
    with Cons.prems p have "(n, d) \<in> set sig" "distinct (map fst sig)" by auto
    from Cons.IH [OF b' this(2) this(1)] False b show ?thesis by simp
  qed
qed

lemma tcn_stft_optimizer:
  fixes nb_freq nb_classes nb_hist nb_filters kernel_size nb_conv nb_pre_conv pre_nb_dft
    nb_lstm_units :: int
    and return_sequences :: bool and sample_weight_mode :: "string option"
    and learning_rate :: real and use_separable :: pyval
  assumes "tcn_stft B nb_freq nb_classes nb_hist nb_filters kernel_size nb_conv loss dilations
     activation use_skip_connections return_sequences dropout_rate padding
     sample_weight_mode nb_pre_conv pre_nb_dft nb_lstm_units learning_rate upsample
     use_separable = Inr m"
  shows "m_optimizer m = Adam learning_rate True 1"
  using assms
  unfolding tcn_stft_def Let_def
  by (auto simp: bindE_Inr_iff Model_def compile_def)

lemma tcn_tcn_optimizer:
  fixes nb_freq nb_classes nb_hist nb_filters kernel_size nb_conv nb_pre_conv :: int
    and return_sequences :: bool and sample_weight_mode :: "string option"
    and learning_rate :: real and use_separable :: pyval
  assumes "tcn_tcn B nb_freq nb_classes nb_hist nb_filters kernel_size nb_conv loss dilations
     activation use_skip_connections return_sequences dropout_rate padding
     sample_weight_mode nb_pre_conv learning_rate upsample
     use_separable = Inr m"
  shows "m_optimizer m = Adam learning_rate True 1"
  using assms
  unfolding tcn_tcn_def Let_def
  by (auto simp: bindE_Inr_iff Model_def compile_def)

lemma call_tcn_stft_lr:
  assumes "call_tcn_stft B [] kw = Inr m"
  shows "float_of (case kw ''learning_rate'' of Some v \<Rightarrow> v | None \<Rightarrow> PFloat 0.0005)
           = Some (lr (m_optimizer m))"
proof -
  from assms obtain b where b: "bind_params tcn_stft_signature [] kw = Inr b"
    and r: "(case do {
                nb_freq \<leftarrow> arg b ''nb_freq'' int_of;
                nb_classes \<leftarrow> arg b ''nb_classes'' int_of;
                nb_hist \<leftarrow> arg b ''nb_hist'' int_of;
                nb_filters \<leftarrow> arg b ''nb_filters'' int_of;
                kernel_size \<leftarrow> arg b ''kernel_size'' int_of;
                nb_conv \<leftarrow> arg b ''nb_conv'' int_of;
                loss \<leftarrow> arg b ''loss'' str_of;
                dilations \<leftarrow> arg b ''dilations'' optional_ints_of;
                activation \<leftarrow> arg b ''activation'' str_of;
                use_skip_connections \<leftarrow> arg b ''use_skip_connections'' bool_of;
                return_sequences \<leftarrow> arg b ''return_sequences'' bool_of;
                dropout_rate \<leftarrow> arg b ''dropout_rate'' float_of;
                padding \<leftarrow> arg b ''padding'' str_of;
                sample_weight_mode \<leftarrow> arg b ''sample_weight_mode'' optional_str_of;
                nb_pre_conv \<leftarrow> arg b ''nb_pre_conv'' int_of;
                pre_nb_dft \<leftarrow> arg b ''pre_nb_dft'' int_of;
                nb_lstm_units \<leftarrow> arg b ''nb_lstm_units'' int_of;
                learning_rate \<leftarrow> arg b ''learning_rate'' float_of;
                upsample \<leftarrow> arg b ''upsample'' bool_of;
                use_separable \<leftarrow> b ''use_separable'';
                Some (tcn_stft B nb_freq nb_classes nb_hist nb_filters kernel_size nb_conv
                        loss dilations activation use_skip_connections return_sequences
                        dropout_rate padding sample_weight_mode nb_pre_conv pre_nb_dft
                        nb_lstm_units learning_rate upsample use_separable)
              } of
               None \<Rightarrow> Inl (TypeError ''argument of the wrong type'')
             | Some r \<Rightarrow> r) = Inr m"
    unfolding call_tcn_stft_def by (auto simp: bindE_Inr_iff)
  have l: "b ''learning_rate'' = (case kw ''learning_rate'' of Some v \<Rightarrow> Some v | None \<Rightarrow> Some (PFloat 0.0005))"
    by (rule bind_params_lookup [OF b]) (simp_all add: tcn_stft_signature_def)
  from r have "arg b ''learning_rate'' float_of = Some (lr (m_optimizer m))"
    by (auto simp: Adam_def split: option.splits Option.bind_splits dest!: tcn_stft_optimizer)
  with l show ?thesis
    by (auto simp: arg_def split: option.splits)
qed

lemma call_tcn_tcn_lr:
  assumes "call_tcn_tcn B [] kw = Inr m"
  shows "float_of (case kw ''learning_rate'' of Some v \<Rightarrow> v | None \<Rightarrow> PFloat 0.0005)
           = Some (lr (m_optimizer m))"
proof -
  from assms obtain b where b: "bind_params tcn_tcn_signature [] kw = Inr b"
    and r: "(case do {
                nb_freq \<leftarrow> arg b ''nb_freq'' int_of;
                nb_classes \<leftarrow> arg b ''nb_classes'' int_of;
                nb_hist \<leftarrow> arg b ''nb_hist'' int_of;
                nb_filters \<leftarrow> arg b ''nb_filters'' int_of;
                kernel_size \<leftarrow> arg b ''kernel_size'' int_of;
                nb_conv \<leftarrow> arg b ''nb_conv'' int_of;
                loss \<leftarrow> arg b ''loss'' str_of;
                dilations \<leftarrow> arg b ''dilations'' optional_ints_of;
                activation \<leftarrow> arg b ''activation'' str_of;
                use_skip_connections \<leftarrow> arg b ''use_skip_connections'' bool_of;
                return_sequences \<leftarrow> arg b ''return_sequences'' bool_of;
                dropout_rate \<leftarrow> arg b ''dropout_rate'' float_of;
                padding \<leftarrow> arg b ''padding'' str_of;
                sample_weight_mode \<leftarrow> arg b ''sample_weight_mode'' optional_str_of;
                nb_pre_conv \<leftarrow> arg b ''nb_pre_conv'' int_of;
                learning_rate \<leftarrow> arg b ''learning_rate'' float_of;
                upsample \<leftarrow> arg b ''upsample'' bool_of;
                use_separable \<leftarrow> b ''use_separable'';
                Some (tcn_tcn B nb_freq nb_classes nb_hist nb_filters kernel_size nb_conv
                        loss dilations activation use_skip_connections return_sequences
                        dropout_rate padding sample_weight_mode nb_pre_conv
                        learning_rate upsample use_separable)
              } of
               None \<Rightarrow> Inl (TypeError ''argument of the wrong type'')
             | Some r \<Rightarrow> r) = Inr m"
    unfolding call_tcn_tcn_def by (auto simp: bindE_Inr_iff)
  have l: "b ''learning_rate'' = (case kw ''learning_rate'' of Some v \<Rightarrow> Some v | None \<Rightarrow> Some (PFloat 0.0005))"
    by (rule bind_params_lookup [OF b]) (simp_all add: tcn_tcn_signature_def)
  from r have "arg b ''learning_rate'' float_of = Some (lr (m_optimizer m))"
    by (auto simp: Adam_def split: option.splits Option.bind_splits dest!: tcn_tcn_optimizer)
  with l show ?thesis
    by (auto simp: arg_def split: option.splits)
qed


lemma build_network_lr:
  assumes "build_network E a params t = (Inr m, t')"
  shows "float_of (case params ''learning_rate'' of Some v \<Rightarrow> v | None \<Rightarrow> PFloat 0.0005)
           = Some (lr (m_optimizer m))"
  using assms
  by (auto simp: build_network_eq model_dict_eq def_tcn_def def_tcn_stft_def def_tcn_tcn_def
      tcn_def split: if_splits intro: call_tcn_stft_lr call_tcn_tcn_lr)

lemma build_Inr:
  assumes "build E a t = (Inr (sp, d, params, dg, vg, m), t')"
  shows "\<exists>p0 t1 t2. configure a t = (Inr (p0, sp), t1) \<and>
           load_data E a p0 t1 = (Inr (d, params, dg, vg), t2) \<and>
           build_network E a params t2 = (Inr m, t')"
  using assms unfolding build_def
  by (auto simp: bindR_Inr_iff ret_def split: prod.splits)

lemma build_learning_rate:
  assumes "build E a t = (Inr (sp, d, params, dg, vg, m), t')"
  shows "params ''learning_rate'' =
           (case attrs d ''learning_rate'' of
              Some v \<Rightarrow> Some v
            | None \<Rightarrow> map_option PFloat (learning_rate a))"
    and "float_of (case params ''learning_rate'' of Some v \<Rightarrow> v | None \<Rightarrow> PFloat 0.0005)
           = Some (lr (m_optimizer m))"
proof -
  from build_Inr [OF assms] obtain p0 t1 t2 where c: "configure a t = (Inr (p0, sp), t1)"
    and l: "load_data E a p0 t1 = (Inr (d, params, dg, vg), t2)"
    and b: "build_network E a params t2 = (Inr m, t')"
    by blast
  have "params ''learning_rate'' = (p0 ++ attrs d) ''learning_rate''"
    by (rule load_data_Inr [OF l]) simp
  with configure_Inr(1) [OF c]
  show "params ''learning_rate'' =
           (case attrs d ''learning_rate'' of
              Some v \<Rightarrow> Some v
            | None \<Rightarrow> map_option PFloat (learning_rate a))"
    by (simp add: map_add_def split: option.splits)
  from build_network_lr [OF b]
  show "float_of (case params ''learning_rate'' of Some v \<Rightarrow> v | None \<Rightarrow> PFloat 0.0005)
           = Some (lr (m_optimizer m))" .
qed

lemma demo_build_eval:
  "(case build demo_env demo_args [] of
      (Inr (sp, d, params, dg, vg, m), t) \<Rightarrow> attrs d ''learning_rate'' = None
    | _ \<Rightarrow> False)"
  by code_simp

lemma lr_attr_build_eval:
  "(case build (demo_world lr_attr_dataset) demo_args [] of
      (Inr (sp, d, params, dg, vg, m), t) \<Rightarrow> attrs d ''learning_rate'' = Some (PFloat (1 / 10))
    | _ \<Rightarrow> False)"
  by code_simp

text \<open>
  Where the attributes of the loaded dataset have no entry \<^verbatim>\<open>'learning_rate'\<close>, the
  dictionary the builder is called with has the key only if a learning rate was given:
  with \<^verbatim>\<open>learning_rate=None\<close> the builder's default 0.0005 is used, and a given
  learning rate reaches the optimizer unchanged.
\<close>

lemma learning_rate_without_attribute:
  assumes "build E a t = (Inr (sp, d, params, dg, vg, m), t')"
    and "attrs d ''learning_rate'' = None"
  shows "(learning_rate a = None \<longrightarrow>
            params ''learning_rate'' = None \<and> lr (m_optimizer m) = 0.0005) \<and>
         (\<forall>r. learning_rate a = Some r \<longrightarrow>
            params ''learning_rate'' = Some (PFloat r) \<and> lr (m_optimizer m) = r)"
  using build_learning_rate [OF assms(1)] assms(2)
  by (cases "learning_rate a") auto

lemma learning_rate_without_attribute_example:
  "\<exists>sp d params dg vg m t.
     build demo_env demo_args [] = (Inr (sp, d, params, dg, vg, m), t) \<and>
     learning_rate demo_args = None \<and> params ''learning_rate'' = None \<and>
     lr (m_optimizer m) = 5 / 10000"
proof -
  from demo_build_eval obtain sp d params dg vg m t
    where b: "build demo_env demo_args [] = (Inr (sp, d, params, dg, vg, m), t)"
      and at: "attrs d ''learning_rate'' = None"
    by (auto split: prod.splits sum.splits)
  have "learning_rate demo_args = None" by (simp add: demo_args_def)
  with learning_rate_without_attribute [OF b at] b show ?thesis by auto
qed

text \<open>
  Claim C10.  For every call to \<^verbatim>\<open>train\<close> with \<^verbatim>\<open>learning_rate=None\<close> the key is removed
  from the parameter dictionary before the builder is invoked, so that the builder's default
  of 0.0005 is used.  The comment on line 168 and the docstring say so, and the code misses
  it: line 170 removes the key, and line 178 merges the attributes of the dataset into the
  dictionary afterwards.  On a dataset whose attributes carry \<^verbatim>\<open>'learning_rate': 0.1\<close>, the
  call with \<^verbatim>\<open>learning_rate=None\<close> invokes the builder with the key, and the model is
  compiled with the learning rate 0.1.
\<close>

theorem learning_rate_overridden:
  "learning_rate demo_args = None \<and>
   (\<exists>sp d params dg vg m t.
      build (demo_world lr_attr_dataset) demo_args [] = (Inr (sp, d, params, dg, vg, m), t) \<and>
      params ''learning_rate'' = Some (PFloat (1 / 10)) \<and>
      lr (m_optimizer m) = 1 / 10 \<and> lr (m_optimizer m) \<noteq> 5 / 10000)"
proof -
  from lr_attr_build_eval obtain sp d params dg vg m t
    where b: "build (demo_world lr_attr_dataset) demo_args [] = (Inr (sp, d, params, dg, vg, m), t)"
      and at: "attrs d ''learning_rate'' = Some (PFloat (1 / 10))"
    by (auto split: prod.splits sum.splits)
  from build_learning_rate [OF b] at
  have "params ''learning_rate'' = Some (PFloat (1 / 10))" "lr (m_optimizer m) = 1 / 10"
    by simp_all
  moreover have "learning_rate demo_args = None" by (simp add: demo_args_def)
  ultimately show ?thesis using b by auto
qed

subsection \<open>The events of each part of \<^verbatim>\<open>train\<close>\<close>

















subsection \<open>Output names and callbacks\<close>





subsection \<open>The checkpoint over the epochs\<close>



















subsection \<open>The final evaluation and the parts of a run that returns\<close>








subsection \<open>The output files\<close>




subsection \<open>The checkpoint holds the best epoch\<close>



subsection \<open>Experiment tracking that could not be set up\<close>







end
